theory Spec2Isabelle
  imports Main
begin

section \<open>The streaming chat session of the agent platform\<close>

text \<open>
  This theory embeds the chat path of the repository: the body of the loop of
  \<open>websocket_endpoint\<close> (main.py), the streaming generator
  \<open>ChatManager.get_agent_response_stream\<close> (chat.py), the methods of \<open>Database\<close> that the
  loop calls (database.py) and the lookup of \<open>AgentManager\<close> (agents.py).

  Python objects that the code mutates (the database object and the PostgreSQL tables behind
  it, the agent catalog, the websocket) are fields of one record \<open>world\<close>, passed through
  every function and returned updated. An \<open>await\<close>ed call that may raise returns
  \<open>(exn + 'a) \<times> world\<close>: \<open>Inl\<close> is the exception, and the world is the one at the point
  of the raise, since a handler further up goes on from there.

  Scope of the model.
  \<^item> The inbound text has been parsed by \<open>json.loads\<close> into an object whose four fields are
    strings or absent (None).
  \<^item> Storage fails in two ways: database.py raises
    \<open>ValueError("Database not configured")\<close> itself, and the server may refuse any
    statement sent to it (a user identifier that is not the UUID of a registered user, a
    conversation identifier without a row, a text the column cannot hold, a lost
    connection). Whether a statement is carried out or refused is given by the environment
    (\<open>outcomes\<close>), one outcome for each statement in the order they are sent. Taking a
    connection from the pool of a configured database and giving it back succeed.
  \<^item> \<open>websocket.send_text\<close> succeeds: the client stays connected during the request.
  \<^item> \<open>NOW()\<close> is a clock that never runs backwards; how far it advances between two
    statements is given by the environment (\<open>ticks\<close>).
  \<^item> The connection registry (websocket_handler.py) keeps no state that the chat path reads
    and is left out.
\<close>

subsection \<open>Exceptions and asynchronous generators\<close>

datatype exn = ValueError string | AttributeError string | APIError string | PostgresError string

text \<open>\<open>str(e)\<close>: the message of the exception.\<close>

fun str_exn :: "exn \<Rightarrow> string" where
  "str_exn (ValueError m) = m"
| "str_exn (AttributeError m) = m"
| "str_exn (APIError m) = m"
| "str_exn (PostgresError m) = m"

text \<open>
  A generator, seen from its consumer: it yields a value and goes on, or it is exhausted, or
  it raises. The stream that \<open>chat.completions.create(stream=True)\<close> returns is a generator
  of deltas, each with an optional \<open>content\<close>; a failure of \<open>create\<close> itself is a generator
  that raises at once.
\<close>

datatype 'a agen = Yield 'a "'a agen" | Stop | Raise exn

text \<open>Python truthiness of an optional string: None and the empty string are falsy.\<close>

fun truthy :: "string option \<Rightarrow> bool" where
  "truthy None = False"
| "truthy (Some s) = (s \<noteq> [])"

subsection \<open>Data\<close>

datatype json = JNull | JInt int | JStr string

text \<open>The three shapes of outbound text that the loop sends (\<open>json.dumps\<close> of a dict).\<close>

datatype frame =
    Chunk_frame string string      \<comment> \<open>type "chunk": content, conversation_id\<close>
  | Complete_frame string          \<comment> \<open>type "complete": conversation_id\<close>
  | Error_frame string             \<comment> \<open>error\<close>

datatype sql =
    Insert_activity_logs
  | Select_user_agent_access
  | Insert_conversations
  | Insert_messages string         \<comment> \<open>the role of the inserted row\<close>
  | Update_conversations

text \<open>What the process does to the outside, in the order it does it.\<close>

datatype event =
    Create_pool
  | Acquire
  | Release
  | Execute sql
  | Completions_create
  | Send_text frame

record access_row =
  access_user_id :: string
  access_agent_id :: string
  payment_intent_id :: "string option"
  granted_at :: nat

record conversation_row =
  conv_id :: string
  conv_user_id :: string
  conv_agent_id :: string
  title :: string
  conv_created_at :: nat
  conv_updated_at :: nat

record message_row =
  msg_id :: string
  msg_conversation_id :: string
  role :: string
  content :: string
  msg_created_at :: nat

record activity_row =
  act_id :: string
  act_user_id :: string
  action :: string
  metadata :: "(string \<times> json) list option"
  act_created_at :: nat

text \<open>
  An entry of the agent catalog. The chat path reads \<open>system_prompt\<close> only, with
  \<open>dict.get\<close> and a default, so the key may be absent (agents created through the admin
  endpoint carry \<open>prompt\<close> instead).
\<close>

record agent =
  agent_id :: string
  agent_type :: string
  system_prompt :: "string option"

record request =
  req_user_id :: "string option"
  req_agent_id :: "string option"
  req_message :: "string option"
  req_conversation_id :: "string option"

record world =
  database_url :: "string option"                    \<comment> \<open>Database.database_url\<close>
  pool :: bool                                       \<comment> \<open>Database.pool is not None\<close>
  user_agent_access :: "access_row list"             \<comment> \<open>table user_agent_access\<close>
  conversations :: "conversation_row list"           \<comment> \<open>table conversations\<close>
  messages :: "message_row list"                     \<comment> \<open>table messages\<close>
  activity_logs :: "activity_row list"               \<comment> \<open>table activity_logs\<close>
  uuid_counter :: nat                                \<comment> \<open>how many gen_random_uuid() so far\<close>
  uuid_of :: "nat \<Rightarrow> string"                          \<comment> \<open>the n-th identifier issued\<close>
  clock :: nat                                       \<comment> \<open>the database clock\<close>
  ticks :: "nat list"                                \<comment> \<open>its coming advances\<close>
  outcomes :: "string option list"
      \<comment> \<open>what the server does with the coming statements: None, the statement is carried
          out; Some m, it is refused with message m; past the end, carried out\<close>
  openai_client :: "(string \<Rightarrow> string \<Rightarrow> string option agen) option"
      \<comment> \<open>ChatManager.openai_client: None without an API key; else the stream the backend
          returns for a system prompt and a user message\<close>
  agents :: "string \<Rightarrow> agent option"                  \<comment> \<open>AgentManager.agents\<close>
  trace :: "event list"

subsection \<open>database.py\<close>

definition emit :: "event \<Rightarrow> world \<Rightarrow> world" where
  "emit e w = w\<lparr>trace := trace w @ [e]\<rparr>"

text \<open>\<open>NOW()\<close> of a statement: the clock advances by the next tick, if any is left.\<close>

definition tick :: "world \<Rightarrow> world" where
  "tick w = (case ticks w of [] \<Rightarrow> w | d # ds \<Rightarrow> w\<lparr>clock := clock w + d, ticks := ds\<rparr>)"

text \<open>\<open>gen_random_uuid()\<close>, the default of every \<open>id\<close> column.\<close>

definition fresh_uuid :: "world \<Rightarrow> string" where
  "fresh_uuid w = uuid_of w (uuid_counter w)"

definition bump_uuid :: "world \<Rightarrow> world" where
  "bump_uuid w = w\<lparr>uuid_counter := Suc (uuid_counter w)\<rparr>"

text \<open>
  \<open>conn.execute\<close> and \<open>conn.fetchrow\<close>: the statement reaches the server, which carries it
  out or refuses it. The next outcome of the environment says which; on a refusal the call
  raises and the tables stay as they are.
\<close>

definition statement :: "world \<Rightarrow> (exn + unit) \<times> world" where
  "statement w =
     (case outcomes w of
        [] \<Rightarrow> (Inr (), w)
      | None # os \<Rightarrow> (Inr (), w\<lparr>outcomes := os\<rparr>)
      | Some m # os \<Rightarrow> (Inl (PostgresError m), w\<lparr>outcomes := os\<rparr>))"

definition get_connection :: "world \<Rightarrow> (exn + unit) \<times> world" where
  "get_connection w =
     (if \<not> truthy (database_url w) then (Inl (ValueError ''Database not configured''), w)
      else let w1 = (if \<not> pool w then emit Create_pool (w\<lparr>pool := True\<rparr>) else w)
           in (Inr (), emit Acquire w1))"

definition release_connection :: "world \<Rightarrow> world" where
  "release_connection w = emit Release w"

definition free_agents :: "string list" where
  "free_agents = [''creative-writer'', ''code-helper'', ''research-assistant'']"

text \<open>
  Every method takes its connection first and releases it in a \<open>finally\<close>: an exception
  of a statement leaves the method after the release.
\<close>

definition check_agent_access :: "string \<Rightarrow> string \<Rightarrow> world \<Rightarrow> (exn + bool) \<times> world" where
  "check_agent_access uid aid w =
     (case get_connection w of
        (Inl e, w1) \<Rightarrow> (Inl e, w1)
      | (Inr _, w1) \<Rightarrow>
          if aid \<in> set free_agents then (Inr True, release_connection w1)
          else
            (case statement w1 of
               (Inl e, w2) \<Rightarrow> (Inl e, release_connection w2)
             | (Inr _, w2) \<Rightarrow>
                 let access = find (\<lambda>r. access_user_id r = uid \<and> access_agent_id r = aid)
                                   (user_agent_access w2);
                     w3 = emit (Execute Select_user_agent_access) w2
                 in (Inr (access \<noteq> None), release_connection w3)))"

definition create_conversation :: "string \<Rightarrow> string \<Rightarrow> world \<Rightarrow> (exn + string) \<times> world" where
  "create_conversation uid aid w =
     (case get_connection w of
        (Inl e, w1) \<Rightarrow> (Inl e, w1)
      | (Inr _, w1) \<Rightarrow>
          (case statement w1 of
             (Inl e, w2) \<Rightarrow> (Inl e, release_connection w2)
           | (Inr _, w2) \<Rightarrow>
               let w3 = tick w2;
                   row = \<lparr>conv_id = fresh_uuid w3, conv_user_id = uid, conv_agent_id = aid,
                          title = ''New Conversation'',
                          conv_created_at = clock w3, conv_updated_at = clock w3\<rparr>;
                   w4 = emit (Execute Insert_conversations)
                          (bump_uuid (w3\<lparr>conversations := conversations w3 @ [row]\<rparr>))
               in (Inr (conv_id row), release_connection w4)))"

definition touch :: "string \<Rightarrow> nat \<Rightarrow> conversation_row \<Rightarrow> conversation_row" where
  "touch cid t c = (if conv_id c = cid then c\<lparr>conv_updated_at := t\<rparr> else c)"

text \<open>
  Two statements, each committed on its own: when the \<open>UPDATE\<close> is refused the message
  row of the \<open>INSERT\<close> stays.
\<close>

definition save_message :: "string \<Rightarrow> string \<Rightarrow> string \<Rightarrow> world \<Rightarrow> (exn + unit) \<times> world" where
  "save_message cid r txt w =
     (case get_connection w of
        (Inl e, w1) \<Rightarrow> (Inl e, w1)
      | (Inr _, w1) \<Rightarrow>
          (case statement w1 of
             (Inl e, w2) \<Rightarrow> (Inl e, release_connection w2)
           | (Inr _, w2) \<Rightarrow>
               let w3 = tick w2;
                   row = \<lparr>msg_id = fresh_uuid w3, msg_conversation_id = cid, role = r,
                          content = txt, msg_created_at = clock w3\<rparr>;
                   w4 = emit (Execute (Insert_messages r))
                          (bump_uuid (w3\<lparr>messages := messages w3 @ [row]\<rparr>))
               in
               (case statement w4 of
                  (Inl e, w5) \<Rightarrow> (Inl e, release_connection w5)
                | (Inr _, w5) \<Rightarrow>
                    let w6 = tick w5;
                        w7 = emit (Execute Update_conversations)
                               (w6\<lparr>conversations :=
                                     map (touch cid (clock w6)) (conversations w6)\<rparr>)
                    in (Inr (), release_connection w7))))"

definition log_activity ::
  "string \<Rightarrow> string \<Rightarrow> (string \<times> json) list \<Rightarrow> world \<Rightarrow> (exn + unit) \<times> world" where
  "log_activity uid act md w =
     (case get_connection w of
        (Inl e, w1) \<Rightarrow> (Inl e, w1)
      | (Inr _, w1) \<Rightarrow>
          (case statement w1 of
             (Inl e, w2) \<Rightarrow> (Inl e, release_connection w2)
           | (Inr _, w2) \<Rightarrow>
               let w3 = tick w2;
                   row = \<lparr>act_id = fresh_uuid w3, act_user_id = uid, action = act,
                          metadata = (if md \<noteq> [] then Some md else None),
                          act_created_at = clock w3\<rparr>;
                   w4 = emit (Execute Insert_activity_logs)
                          (bump_uuid (w3\<lparr>activity_logs := activity_logs w3 @ [row]\<rparr>))
               in (Inr (), release_connection w4)))"

subsection \<open>agents.py\<close>

definition get_agent :: "string \<Rightarrow> world \<Rightarrow> agent option" where
  "get_agent aid w = agents w aid"

text \<open>The catalog that \<open>AgentManager.__init__\<close> builds (the fields the chat path reads).\<close>

definition creative_writer :: agent where
  "creative_writer =
     \<lparr>agent_id = ''creative-writer'', agent_type = ''free'',
      system_prompt = Some ''You are a creative writing assistant with expertise in storytelling, poetry, creative content, and literary techniques. Help users with creative projects, provide writing inspiration, and offer constructive feedback on their creative work. Be encouraging, imaginative, and provide detailed, creative responses.''\<rparr>"

definition code_helper :: agent where
  "code_helper =
     \<lparr>agent_id = ''code-helper'', agent_type = ''free'',
      system_prompt = Some ''You are an expert programming assistant with deep knowledge of multiple programming languages, frameworks, and development best practices. Help users debug code, explain programming concepts, review code quality, and provide efficient solutions. Always include code examples and explanations.''\<rparr>"

definition research_assistant :: agent where
  "research_assistant =
     \<lparr>agent_id = ''research-assistant'', agent_type = ''free'',
      system_prompt = Some ''You are a research assistant with expertise in information gathering, analysis, and synthesis. Help users with research projects, fact-checking, data analysis, and providing comprehensive overviews of complex topics. Always cite your reasoning and acknowledge limitations of your knowledge.''\<rparr>"

definition business_advisor :: agent where
  "business_advisor =
     \<lparr>agent_id = ''business-advisor'', agent_type = ''paid'',
      system_prompt = Some ''You are a senior business consultant with extensive experience in strategy, finance, marketing, and operations. Provide strategic business advice, help with business planning, analyze market opportunities, and offer practical solutions for business challenges. Use business frameworks and data-driven insights in your responses.''\<rparr>"

definition data_scientist :: agent where
  "data_scientist =
     \<lparr>agent_id = ''data-scientist'', agent_type = ''paid'',
      system_prompt = Some ''You are an expert data scientist with deep knowledge in statistics, machine learning, data analysis, and data visualization. Help users with data problems, explain complex analytical concepts, suggest appropriate methodologies, and provide insights from data. Include practical code examples and visualization suggestions when relevant.''\<rparr>"

definition initial_agents :: "string \<Rightarrow> agent option" where
  "initial_agents =
     [''creative-writer'' \<mapsto> creative_writer, ''code-helper'' \<mapsto> code_helper,
      ''research-assistant'' \<mapsto> research_assistant,
      ''business-advisor'' \<mapsto> business_advisor, ''data-scientist'' \<mapsto> data_scientist]"

subsection \<open>chat.py\<close>

text \<open>
  The \<open>for\<close> loop of \<open>get_agent_response_stream\<close> under its \<open>try\<close>: a delta whose content is
  None is skipped, any other content is yielded, and an exception of the backend stream is
  caught and answered by one more yield, after which the generator ends.
\<close>

definition apology :: "exn \<Rightarrow> string" where
  "apology e = ''Sorry, I encountered an error: '' @ str_exn e"

fun stream_deltas :: "string option agen \<Rightarrow> string agen" where
  "stream_deltas (Yield None s) = stream_deltas s"
| "stream_deltas (Yield (Some c) s) = Yield c (stream_deltas s)"
| "stream_deltas Stop = Stop"
| "stream_deltas (Raise e) = Yield (apology e) Stop"

text \<open>
  \<open>agent.get(...)\<close> on the None that \<open>AgentManager.get_agent\<close> returns for an unknown
  identifier raises inside the \<open>try\<close>.
\<close>

definition none_has_no_get :: exn where
  "none_has_no_get =
     AttributeError (CHR 0x27 # ''NoneType'' @ CHR 0x27 # '' object has no attribute '' @
                     CHR 0x27 # ''get'' @ [CHR 0x27])"

text \<open>\<open>agent.get("system_prompt", "You are a helpful AI assistant.")\<close>\<close>

definition prompt_of :: "agent \<Rightarrow> string" where
  "prompt_of a =
     (case system_prompt a of None \<Rightarrow> ''You are a helpful AI assistant.'' | Some p \<Rightarrow> p)"

definition unavailable_text :: string where
  "unavailable_text = ''AI chat is not available. Please configure OpenAI API key.''"

definition get_agent_response_stream ::
  "agent option \<Rightarrow> string \<Rightarrow> world \<Rightarrow> string agen \<times> world" where
  "get_agent_response_stream ag user_message w =
     (case openai_client w of
        None \<Rightarrow> (Yield unavailable_text Stop, w)
      | Some create \<Rightarrow>
          (case ag of
             None \<Rightarrow> (stream_deltas (Raise none_has_no_get), w)
           | Some a \<Rightarrow>
               (stream_deltas (create (prompt_of a) user_message),
                emit Completions_create w)))"

subsection \<open>main.py: the loop of the websocket endpoint\<close>

definition send_text :: "frame \<Rightarrow> world \<Rightarrow> world" where
  "send_text f w = emit (Send_text f) w"

text \<open>
  The \<open>async for\<close> over the generator: each chunk is added to \<open>full_response\<close> and sent. An
  exception of the generator leaves the loop with what has been sent so far.
\<close>

fun relay :: "string agen \<Rightarrow> string \<Rightarrow> string \<Rightarrow> world \<Rightarrow> (exn + string) \<times> world" where
  "relay (Yield c g) cid full w = relay g cid (full @ c) (send_text (Chunk_frame c cid) w)"
| "relay Stop cid full w = (Inr full, w)"
| "relay (Raise e) cid full w = (Inl e, w)"

text \<open>The handler of the inner \<open>try\<close>: the loop goes on with the next request.\<close>

definition agent_response_error :: "exn \<Rightarrow> world \<Rightarrow> (exn + unit) \<times> world" where
  "agent_response_error e w =
     (Inr (), send_text (Error_frame (''Failed to get agent response: '' @ str_exn e)) w)"

text \<open>
  The inner \<open>try\<close> block, for the generator \<open>g\<close> that the \<open>async for\<close> consumes: relay,
  save the answer, log it, send the completion. Any exception in the block is answered by
  its handler.
\<close>

definition answer_from ::
  "string agen \<Rightarrow> string \<Rightarrow> string \<Rightarrow> string \<Rightarrow> world \<Rightarrow> (exn + unit) \<times> world" where
  "answer_from g uid aid cid w =
     (case relay g cid [] w of
        (Inl e, w2) \<Rightarrow> agent_response_error e w2
      | (Inr full_response, w2) \<Rightarrow>
          (case save_message cid ''assistant'' full_response w2 of
             (Inl e, w3) \<Rightarrow> agent_response_error e w3
           | (Inr _, w3) \<Rightarrow>
               (case log_activity uid ''message_received''
                       [(''agent_id'', JStr aid), (''conversation_id'', JStr cid),
                        (''response_length'', JInt (int (length full_response)))] w3 of
                  (Inl e, w4) \<Rightarrow> agent_response_error e w4
                | (Inr _, w4) \<Rightarrow> (Inr (), send_text (Complete_frame cid) w4))))"

text \<open>The generator is the one \<open>chat_manager.get_agent_response_stream(agent, message)\<close> makes.\<close>

definition stream_response ::
  "string \<Rightarrow> string \<Rightarrow> string \<Rightarrow> string \<Rightarrow> world \<Rightarrow> (exn + unit) \<times> world" where
  "stream_response uid aid msg cid w =
     (let (g, w1) = get_agent_response_stream (get_agent aid w) msg w
      in answer_from g uid aid cid w1)"

fun json_of :: "string option \<Rightarrow> json" where
  "json_of None = JNull"
| "json_of (Some s) = JStr s"

text \<open>
  One pass through the body of \<open>while True\<close>, after \<open>receive_text\<close> and \<open>json.loads\<close>.
  \<open>Inr ()\<close> is the end of the pass (also by \<open>continue\<close>); \<open>Inl e\<close> is an exception that
  leaves the loop.
\<close>

definition handle_message :: "request \<Rightarrow> world \<Rightarrow> (exn + unit) \<times> world" where
  "handle_message req w =
     (if \<not> (truthy (req_user_id req) \<and> truthy (req_agent_id req) \<and> truthy (req_message req))
      then (Inr (), send_text (Error_frame ''Missing required fields: user_id, agent_id, message'') w)
      else
        let uid = the (req_user_id req); aid = the (req_agent_id req);
            msg = the (req_message req)
        in
        case log_activity uid ''message_sent''
               [(''agent_id'', JStr aid),
                (''conversation_id'', json_of (req_conversation_id req)),
                (''message_length'', JInt (int (length msg)))] w of
          (Inl e, w1) \<Rightarrow> (Inl e, w1)
        | (Inr _, w1) \<Rightarrow>
            (case check_agent_access uid aid w1 of
               (Inl e, w2) \<Rightarrow> (Inl e, w2)
             | (Inr has_access, w2) \<Rightarrow>
                 if \<not> has_access
                 then (Inr (), send_text (Error_frame ''Access denied to this agent. Payment required.'') w2)
                 else
                   (case (if \<not> truthy (req_conversation_id req)
                          then create_conversation uid aid w2
                          else (Inr (the (req_conversation_id req)), w2)) of
                      (Inl e, w3) \<Rightarrow> (Inl e, w3)
                    | (Inr cid, w3) \<Rightarrow>
                        (case save_message cid ''user'' msg w3 of
                           (Inl e, w4) \<Rightarrow> (Inl e, w4)
                         | (Inr _, w4) \<Rightarrow> stream_response uid aid msg cid w4))))"

text \<open>
  The pass under the outer \<open>try\<close>: an exception that is not a disconnect is reported to the
  client and ends the endpoint (\<open>False\<close>); otherwise the loop waits for the next request.
\<close>

definition websocket_endpoint :: "request \<Rightarrow> world \<Rightarrow> bool \<times> world" where
  "websocket_endpoint req w =
     (case handle_message req w of
        (Inr _, w1) \<Rightarrow> (True, w1)
      | (Inl e, w1) \<Rightarrow> (False, send_text (Error_frame (''Connection error: '' @ str_exn e)) w1))"

text \<open>The loop over the requests the client sends before it disconnects.\<close>

fun serve :: "request list \<Rightarrow> world \<Rightarrow> world" where
  "serve [] w = w"
| "serve (req # reqs) w =
     (case websocket_endpoint req w of
        (True, w1) \<Rightarrow> serve reqs w1
      | (False, w1) \<Rightarrow> w1)"

subsection \<open>Observations of one request\<close>

text \<open>The world after the request, and what the request added to the trace and the tables.\<close>

definition after :: "request \<Rightarrow> world \<Rightarrow> world" where
  "after req w = snd (websocket_endpoint req w)"

definition events_of :: "request \<Rightarrow> world \<Rightarrow> event list" where
  "events_of req w = drop (length (trace w)) (trace (after req w))"

fun frames :: "event list \<Rightarrow> frame list" where
  "frames [] = []"
| "frames (Send_text f # es) = f # frames es"
| "frames (e # es) = frames es"

definition sent :: "request \<Rightarrow> world \<Rightarrow> frame list" where
  "sent req w = frames (events_of req w)"

definition new_messages :: "request \<Rightarrow> world \<Rightarrow> message_row list" where
  "new_messages req w = drop (length (messages w)) (messages (after req w))"

definition new_activity :: "request \<Rightarrow> world \<Rightarrow> activity_row list" where
  "new_activity req w = drop (length (activity_logs w)) (activity_logs (after req w))"

subsection \<open>Vocabulary of the properties\<close>

text \<open>
  The definitions below are not part of the program. They name what the properties talk
  about: the outcome of a generator, what each method of the database does in a given state,
  the states between the steps of a request, how far a request gets, and a few concrete
  states and requests.
\<close>

text \<open>The values a generator yields, in order, and the exception it ends with, if any.\<close>

fun yields :: "'a agen \<Rightarrow> 'a list" where
  "yields (Yield x g) = x # yields g"
| "yields Stop = []"
| "yields (Raise e) = []"

fun raised :: "'a agen \<Rightarrow> exn option" where
  "raised (Yield x g) = raised g"
| "raised Stop = None"
| "raised (Raise e) = Some e"

text \<open>\<open>DATABASE_URL\<close> is set and not empty.\<close>

definition configured :: "world \<Rightarrow> bool" where
  "configured w = truthy (database_url w)"

text \<open>What \<open>get_connection\<close> does on a configured database: the pool is created on first use.\<close>

definition conn_events :: "world \<Rightarrow> event list" where
  "conn_events w = (if pool w then [Acquire] else [Create_pool, Acquire])"

definition not_configured :: exn where
  "not_configured = ValueError ''Database not configured''"

text \<open>
  The exception of the next statement, if the server refuses it, and of the statement after
  it.
\<close>

definition refusal :: "world \<Rightarrow> exn option" where
  "refusal w = (case outcomes w of Some m # os \<Rightarrow> Some (PostgresError m) | _ \<Rightarrow> None)"

definition refusal2 :: "world \<Rightarrow> exn option" where
  "refusal2 w = (case tl (outcomes w) of Some m # os \<Rightarrow> Some (PostgresError m) | _ \<Rightarrow> None)"

text \<open>The user has a row for the agent in \<open>user_agent_access\<close>.\<close>

definition has_row :: "string \<Rightarrow> string \<Rightarrow> world \<Rightarrow> bool" where
  "has_row uid aid w =
     (find (\<lambda>r. access_user_id r = uid \<and> access_agent_id r = aid) (user_agent_access w) \<noteq> None)"

text \<open>The backend is called when there is a client and the agent is known.\<close>

definition backend_events :: "agent option \<Rightarrow> world \<Rightarrow> event list" where
  "backend_events ag w = (if openai_client w \<noteq> None \<and> ag \<noteq> None then [Completions_create] else [])"

text \<open>The fragments that \<open>get_agent_response_stream\<close> yields for an agent and a message.\<close>

definition generated :: "string \<Rightarrow> string \<Rightarrow> world \<Rightarrow> string list" where
  "generated aid msg w = yields (fst (get_agent_response_stream (get_agent aid w) msg w))"

text \<open>The state after the \<open>async for\<close> loop.\<close>

definition after_relay :: "string \<Rightarrow> string \<Rightarrow> string \<Rightarrow> world \<Rightarrow> world" where
  "after_relay aid msg cid w =
     w\<lparr>trace := trace w @ backend_events (get_agent aid w) w @
                 map (\<lambda>c. Send_text (Chunk_frame c cid)) (generated aid msg w)\<rparr>"

text \<open>
  The events of each method of the database, by the state it is called in: nothing when the
  database is unconfigured; else the connection is taken, the statements are executed up to
  the first that is refused, and the connection is given back.
\<close>

definition log_events :: "world \<Rightarrow> event list" where
  "log_events w =
     (if configured w
      then conn_events w @
           (if refusal w = None then [Execute Insert_activity_logs] else []) @ [Release]
      else [])"

definition check_events :: "string \<Rightarrow> world \<Rightarrow> event list" where
  "check_events aid w =
     (if configured w
      then conn_events w @
           (if aid \<notin> set free_agents \<and> refusal w = None
            then [Execute Select_user_agent_access] else []) @ [Release]
      else [])"

definition conversation_events :: "world \<Rightarrow> event list" where
  "conversation_events w =
     (if configured w
      then conn_events w @
           (if refusal w = None then [Execute Insert_conversations] else []) @ [Release]
      else [])"

definition save_events :: "string \<Rightarrow> world \<Rightarrow> event list" where
  "save_events r w =
     (if configured w
      then conn_events w @
           (if refusal w = None
            then Execute (Insert_messages r) #
                 (if refusal2 w = None then [Execute Update_conversations] else [])
            else []) @ [Release]
      else [])"

text \<open>The row that \<open>save_message\<close> and \<open>log_activity\<close> insert, if the \<open>INSERT\<close> is carried out.\<close>

definition saved_rows :: "string \<Rightarrow> string \<Rightarrow> string \<Rightarrow> world \<Rightarrow> message_row list" where
  "saved_rows cid r txt w =
     (if configured w \<and> refusal w = None
      then [\<lparr>msg_id = fresh_uuid w, msg_conversation_id = cid, role = r,
             content = txt, msg_created_at = clock (tick w)\<rparr>]
      else [])"

definition logged_rows :: "string \<Rightarrow> string \<Rightarrow> (string \<times> json) list \<Rightarrow> world \<Rightarrow> activity_row list" where
  "logged_rows uid act md w =
     (if configured w \<and> refusal w = None
      then [\<lparr>act_id = fresh_uuid w, act_user_id = uid, action = act,
             metadata = (if md \<noteq> [] then Some md else None),
             act_created_at = clock (tick w)\<rparr>]
      else [])"

text \<open>The request carries a non-empty \<open>user_id\<close>, \<open>agent_id\<close> and \<open>message\<close>.\<close>

definition valid :: "request \<Rightarrow> bool" where
  "valid req = (truthy (req_user_id req) \<and> truthy (req_agent_id req) \<and> truthy (req_message req))"

text \<open>The agent is free or the user has a row for it.\<close>

definition entitled :: "request \<Rightarrow> world \<Rightarrow> bool" where
  "entitled req w =
     (the (req_agent_id req) \<in> set free_agents \<or>
      has_row (the (req_user_id req)) (the (req_agent_id req)) w)"

text \<open>
  The metadata of the two activity events, the identifier of the conversation, the answer,
  and the states between the steps of a request: after the first activity event, after the
  entitlement check, after the conversation is resolved, after the user message is saved,
  after the relay loop, after the answer is saved, after the second activity event. A state
  is meant only for a request that gets as far as its step.
\<close>

definition sent_meta :: "request \<Rightarrow> (string \<times> json) list" where
  "sent_meta req =
     [(''agent_id'', JStr (the (req_agent_id req))),
      (''conversation_id'', json_of (req_conversation_id req)),
      (''message_length'', JInt (int (length (the (req_message req)))))]"

definition logged :: "request \<Rightarrow> world \<Rightarrow> world" where
  "logged req w = snd (log_activity (the (req_user_id req)) ''message_sent'' (sent_meta req) w)"

definition checked :: "request \<Rightarrow> world \<Rightarrow> world" where
  "checked req w =
     snd (check_agent_access (the (req_user_id req)) (the (req_agent_id req)) (logged req w))"

definition resolved :: "request \<Rightarrow> world \<Rightarrow> world" where
  "resolved req w =
     (if \<not> truthy (req_conversation_id req)
      then snd (create_conversation (the (req_user_id req)) (the (req_agent_id req))
                  (checked req w))
      else checked req w)"

definition conversation_of :: "request \<Rightarrow> world \<Rightarrow> string" where
  "conversation_of req w =
     (if \<not> truthy (req_conversation_id req) then fresh_uuid (checked req w)
      else the (req_conversation_id req))"

definition user_saved :: "request \<Rightarrow> world \<Rightarrow> world" where
  "user_saved req w =
     snd (save_message (conversation_of req w) ''user'' (the (req_message req))
            (resolved req w))"

definition relayed :: "request \<Rightarrow> world \<Rightarrow> world" where
  "relayed req w =
     after_relay (the (req_agent_id req)) (the (req_message req)) (conversation_of req w)
       (user_saved req w)"

definition answer :: "request \<Rightarrow> world \<Rightarrow> string" where
  "answer req w = concat (generated (the (req_agent_id req)) (the (req_message req)) w)"

definition answered :: "request \<Rightarrow> world \<Rightarrow> world" where
  "answered req w =
     snd (save_message (conversation_of req w) ''assistant'' (answer req w) (relayed req w))"

definition received_meta :: "request \<Rightarrow> world \<Rightarrow> (string \<times> json) list" where
  "received_meta req w =
     [(''agent_id'', JStr (the (req_agent_id req))),
      (''conversation_id'', JStr (conversation_of req w)),
      (''response_length'', JInt (int (length (answer req w))))]"

definition received :: "request \<Rightarrow> world \<Rightarrow> world" where
  "received req w =
     snd (log_activity (the (req_user_id req)) ''message_received'' (received_meta req w)
            (answered req w))"

text \<open>What each step returns: a value, or the exception it raises.\<close>

definition log_result :: "request \<Rightarrow> world \<Rightarrow> exn + unit" where
  "log_result req w =
     fst (log_activity (the (req_user_id req)) ''message_sent'' (sent_meta req) w)"

definition check_result :: "request \<Rightarrow> world \<Rightarrow> exn + bool" where
  "check_result req w =
     fst (check_agent_access (the (req_user_id req)) (the (req_agent_id req)) (logged req w))"

definition create_result :: "request \<Rightarrow> world \<Rightarrow> exn + string" where
  "create_result req w =
     (if \<not> truthy (req_conversation_id req)
      then fst (create_conversation (the (req_user_id req)) (the (req_agent_id req))
                  (checked req w))
      else Inr (the (req_conversation_id req)))"

definition user_save_result :: "request \<Rightarrow> world \<Rightarrow> exn + unit" where
  "user_save_result req w =
     fst (save_message (conversation_of req w) ''user'' (the (req_message req))
            (resolved req w))"

definition answer_save_result :: "request \<Rightarrow> world \<Rightarrow> exn + unit" where
  "answer_save_result req w =
     fst (save_message (conversation_of req w) ''assistant'' (answer req w) (relayed req w))"

definition receipt_result :: "request \<Rightarrow> world \<Rightarrow> exn + unit" where
  "receipt_result req w =
     fst (log_activity (the (req_user_id req)) ''message_received'' (received_meta req w)
            (answered req w))"

text \<open>How far a request gets: the step at which it ends, with the exception if it raised.\<close>

datatype progress =
    Rejected
  | Log_failed exn
  | Check_failed exn
  | Denied
  | Create_failed exn
  | User_save_failed exn
  | Answer_save_failed exn
  | Receipt_failed exn
  | Completed

definition progress_of :: "request \<Rightarrow> world \<Rightarrow> progress" where
  "progress_of req w =
     (if \<not> valid req then Rejected
      else case log_result req w of
        Inl e \<Rightarrow> Log_failed e
      | Inr _ \<Rightarrow>
        (case check_result req w of
           Inl e \<Rightarrow> Check_failed e
         | Inr has_access \<Rightarrow>
             if \<not> has_access then Denied
             else
               (case create_result req w of
                  Inl e \<Rightarrow> Create_failed e
                | Inr _ \<Rightarrow>
                    (case user_save_result req w of
                       Inl e \<Rightarrow> User_save_failed e
                     | Inr _ \<Rightarrow>
                         (case answer_save_result req w of
                            Inl e \<Rightarrow> Answer_save_failed e
                          | Inr _ \<Rightarrow>
                              (case receipt_result req w of
                                 Inl e \<Rightarrow> Receipt_failed e
                               | Inr _ \<Rightarrow> Completed))))))"

text \<open>
  The error records of the two handlers: the outer one, around the whole body of the loop,
  and the inner one, around the relay of the answer.
\<close>

definition connection_error :: "exn \<Rightarrow> frame" where
  "connection_error e = Error_frame (''Connection error: '' @ str_exn e)"

definition response_error :: "exn \<Rightarrow> frame" where
  "response_error e = Error_frame (''Failed to get agent response: '' @ str_exn e)"

text \<open>
  The events of a request in groups: the sending of the chunks, the steps before the user
  message is saved, and the steps up to the saving of the answer.
\<close>

definition chunk_events :: "request \<Rightarrow> world \<Rightarrow> event list" where
  "chunk_events req w =
     map (\<lambda>c. Send_text (Chunk_frame c (conversation_of req w)))
         (generated (the (req_agent_id req)) (the (req_message req)) w)"

definition setup_events :: "request \<Rightarrow> world \<Rightarrow> event list" where
  "setup_events req w =
     log_events w @ check_events (the (req_agent_id req)) (logged req w) @
     (if truthy (req_conversation_id req) then [] else conversation_events (checked req w))"

definition answer_events :: "request \<Rightarrow> world \<Rightarrow> event list" where
  "answer_events req w =
     setup_events req w @ save_events ''user'' (resolved req w) @
     backend_events (get_agent (the (req_agent_id req)) w) w @ chunk_events req w @
     save_events ''assistant'' (relayed req w)"

text \<open>The contents of the deltas of a backend stream, those that are None left out.\<close>

fun contents :: "string option agen \<Rightarrow> string list" where
  "contents (Yield None s) = contents s"
| "contents (Yield (Some c) s) = c # contents s"
| "contents Stop = []"
| "contents (Raise e) = []"

text \<open>A "complete" or an error record ends the protocol cycle of a request.\<close>

fun is_terminal :: "frame \<Rightarrow> bool" where
  "is_terminal (Chunk_frame c cid) = False"
| "is_terminal (Complete_frame cid) = True"
| "is_terminal (Error_frame e) = True"

text \<open>The contents of the chunk records among the records sent, in order.\<close>

fun chunk_contents :: "frame list \<Rightarrow> string list" where
  "chunk_contents [] = []"
| "chunk_contents (Chunk_frame c cid # fs) = c # chunk_contents fs"
| "chunk_contents (f # fs) = chunk_contents fs"

text \<open>The events of generating and persisting an answer.\<close>

fun generation_event :: "event \<Rightarrow> bool" where
  "generation_event Completions_create = True"
| "generation_event (Send_text (Chunk_frame c cid)) = True"
| "generation_event (Execute (Insert_messages r)) = (r = ''assistant'')"
| "generation_event e = False"

text \<open>
  The backend is unconfigured (no client) or unreachable (\<open>create\<close> raises at once); the
  result is the text the generator yields in its place.
\<close>

definition unavailable :: "world \<Rightarrow> string \<Rightarrow> string \<Rightarrow> string option" where
  "unavailable w aid msg =
     (case openai_client w of
        None \<Rightarrow> Some unavailable_text
      | Some create \<Rightarrow>
          (case agents w aid of
             None \<Rightarrow> None
           | Some ag \<Rightarrow>
               (case create (prompt_of ag) msg of Raise e \<Rightarrow> Some (apology e) | _ \<Rightarrow> None)))"

text \<open>The server refuses none of the coming statements.\<close>

definition no_refusal :: "world \<Rightarrow> bool" where
  "no_refusal w = list_all (\<lambda>out. out = None) (outcomes w)"

text \<open>
  Concrete states and requests. \<open>alice\<close> is the identifier of a registered user, and the
  identifiers that the server issues are UUIDs, five of them spelled out. \<open>world0\<close> is a
  configured database with empty tables of entitlements, conversations, messages and
  activity, no API key, and a server that carries out every statement; \<open>scripted s\<close> is the
  same with a backend that answers every call with the stream \<open>s\<close>. In \<open>refusing\<close> the
  server refuses the fifth statement, which for a new conversation with a free agent is the
  \<open>INSERT\<close> of the assistant message. The requests are those of Scenario A (a free
  agent), of Scenario B (a paid agent) and one without a message.
\<close>

definition alice :: string where
  "alice = ''c56a4180-65aa-42ec-a945-5fd21dec0538''"

fun sample_uuid :: "nat \<Rightarrow> string" where
  "sample_uuid 0 = ''9f1b2c3d-0000-4a6b-8c7d-000000000000''"
| "sample_uuid (Suc 0) = ''9f1b2c3d-0000-4a6b-8c7d-000000000001''"
| "sample_uuid (Suc (Suc 0)) = ''9f1b2c3d-0000-4a6b-8c7d-000000000002''"
| "sample_uuid (Suc (Suc (Suc 0))) = ''9f1b2c3d-0000-4a6b-8c7d-000000000003''"
| "sample_uuid (Suc (Suc (Suc (Suc n)))) = ''9f1b2c3d-0000-4a6b-8c7d-000000000004''"

definition world0 :: world where
  "world0 =
     \<lparr>database_url = Some ''postgresql://localhost/agencore'', pool = False,
      user_agent_access = [], conversations = [], messages = [], activity_logs = [],
      uuid_counter = 0, uuid_of = sample_uuid, clock = 0, ticks = [], outcomes = [],
      openai_client = None, agents = initial_agents, trace = []\<rparr>"

definition scripted :: "string option agen \<Rightarrow> world" where
  "scripted s = world0\<lparr>openai_client := Some (\<lambda>prompt msg. s)\<rparr>"

definition refusing :: world where
  "refusing =
     (scripted (Yield (Some ''Hel'') Stop))
       \<lparr>outcomes := [None, None, None, None, Some ''connection is closed'']\<rparr>"

definition req_hi :: request where
  "req_hi = \<lparr>req_user_id = Some alice, req_agent_id = Some ''creative-writer'',
             req_message = Some ''hi'', req_conversation_id = None\<rparr>"

definition req_paid :: request where
  "req_paid = \<lparr>req_user_id = Some alice, req_agent_id = Some ''data-scientist'',
               req_message = Some ''hi'', req_conversation_id = None\<rparr>"

definition req_no_message :: request where
  "req_no_message = \<lparr>req_user_id = Some alice, req_agent_id = Some ''creative-writer'',
                     req_message = None, req_conversation_id = None\<rparr>"

text \<open>
  The server carries out the first statement and refuses the second, which for a paid agent
  is the \<open>SELECT\<close> of the entitlement row.
\<close>

definition select_refused :: world where
  "select_refused = world0\<lparr>outcomes := [None, Some ''canceling statement due to statement timeout'']\<rparr>"

text \<open>A clock that advances by 5, 2 and 7 at the first three inserts.\<close>

definition ticking :: world where
  "ticking = (scripted (Yield (Some ''Hel'') Stop))\<lparr>ticks := [5, 2, 7]\<rparr>"

section \<open>Properties\<close>

subsection \<open>The generator and the relay loop\<close>

text \<open>
  The relay loop sends every value the generator yields, in order, and returns their
  concatenation, or raises what the generator raises. The generator of chat.py never raises:
  it turns an exception of the backend into one more fragment.
\<close>

lemma relay_eq:
  "relay g cid full w =
     ((case raised g of None \<Rightarrow> Inr (full @ concat (yields g)) | Some e \<Rightarrow> Inl e),
      w\<lparr>trace := trace w @ map (\<lambda>c. Send_text (Chunk_frame c cid)) (yields g)\<rparr>)"
  by (induction g arbitrary: full w) (simp_all add: send_text_def emit_def split: option.splits)

lemma raised_stream_deltas: "raised (stream_deltas s) = None"
  by (induction s rule: stream_deltas.induct) simp_all

subsection \<open>The methods of the database\<close>

text \<open>
  For each method: what it returns, which fields it leaves alone, and what it does to the
  others, by the state it is called in.
\<close>

lemma clock_tick: "clock w \<le> clock (tick w)"
  by (simp add: tick_def split: list.splits)

lemma clock_tick_eq:
  "clock (tick w) = clock w + (case ticks w of [] \<Rightarrow> 0 | d # ds \<Rightarrow> d)"
  "ticks (tick w) = tl (ticks w)"
  by (simp_all add: tick_def split: list.splits)

lemma tick_fields:
  "database_url (tick w) = database_url w" "pool (tick w) = pool w"
  "user_agent_access (tick w) = user_agent_access w" "conversations (tick w) = conversations w"
  "messages (tick w) = messages w" "activity_logs (tick w) = activity_logs w"
  "uuid_counter (tick w) = uuid_counter w" "uuid_of (tick w) = uuid_of w"
  "outcomes (tick w) = outcomes w"
  "openai_client (tick w) = openai_client w" "agents (tick w) = agents w"
  "trace (tick w) = trace w"
  by (simp_all add: tick_def split: list.splits)

lemma statement_fst:
  "fst (statement w) = (case refusal w of None \<Rightarrow> Inr () | Some e \<Rightarrow> Inl e)"
  by (simp add: statement_def refusal_def split: list.splits option.splits)

lemma statement_fields:
  "database_url (snd (statement w)) = database_url w" "pool (snd (statement w)) = pool w"
  "user_agent_access (snd (statement w)) = user_agent_access w"
  "conversations (snd (statement w)) = conversations w"
  "messages (snd (statement w)) = messages w"
  "activity_logs (snd (statement w)) = activity_logs w"
  "uuid_counter (snd (statement w)) = uuid_counter w" "uuid_of (snd (statement w)) = uuid_of w"
  "clock (snd (statement w)) = clock w" "ticks (snd (statement w)) = ticks w"
  "outcomes (snd (statement w)) = tl (outcomes w)"
  "openai_client (snd (statement w)) = openai_client w" "agents (snd (statement w)) = agents w"
  "trace (snd (statement w)) = trace w"
  by (simp_all add: statement_def split: list.splits option.splits)

lemma refusal_upd:
  "refusal (w\<lparr>trace := t\<rparr>) = refusal w" "refusal (w\<lparr>pool := p\<rparr>) = refusal w"
  "refusal (w\<lparr>messages := ms\<rparr>) = refusal w" "refusal (w\<lparr>uuid_counter := n\<rparr>) = refusal w"
  "refusal (tick w) = refusal w"
  "refusal (snd (statement w)) = refusal2 w"
  "refusal2 (w\<lparr>trace := t\<rparr>) = refusal2 w" "refusal2 (w\<lparr>pool := p\<rparr>) = refusal2 w"
  by (simp_all add: refusal_def refusal2_def tick_fields statement_fields)

lemmas db_defs = get_connection_def release_connection_def emit_def bump_uuid_def
  fresh_uuid_def configured_def conn_events_def not_configured_def Let_def split_beta
  statement_fst statement_fields tick_fields clock_tick_eq refusal_upd

lemma log_activity_fst:
  "fst (log_activity uid act md w) =
     (if \<not> configured w then Inl not_configured
      else case refusal w of None \<Rightarrow> Inr () | Some e \<Rightarrow> Inl e)"
  by (simp add: log_activity_def db_defs split: option.splits)

lemma log_activity_static:
  "database_url (snd (log_activity uid act md w)) = database_url w"
  "user_agent_access (snd (log_activity uid act md w)) = user_agent_access w"
  "conversations (snd (log_activity uid act md w)) = conversations w"
  "messages (snd (log_activity uid act md w)) = messages w"
  "uuid_of (snd (log_activity uid act md w)) = uuid_of w"
  "openai_client (snd (log_activity uid act md w)) = openai_client w"
  "agents (snd (log_activity uid act md w)) = agents w"
  "configured (snd (log_activity uid act md w)) = configured w"
  by (simp_all add: log_activity_def db_defs split: option.splits)

lemma log_activity_effect:
  "pool (snd (log_activity uid act md w)) = (pool w \<or> configured w)"
  "outcomes (snd (log_activity uid act md w)) =
     (if configured w then tl (outcomes w) else outcomes w)"
  "trace (snd (log_activity uid act md w)) =
     trace w @
     (if configured w
      then conn_events w @
           (if refusal w = None then [Execute Insert_activity_logs] else []) @ [Release]
      else [])"
  "activity_logs (snd (log_activity uid act md w)) =
     activity_logs w @
     (if configured w \<and> refusal w = None
      then [\<lparr>act_id = fresh_uuid w, act_user_id = uid, action = act,
             metadata = (if md \<noteq> [] then Some md else None),
             act_created_at = clock (tick w)\<rparr>]
      else [])"
  "uuid_counter (snd (log_activity uid act md w)) =
     (if configured w \<and> refusal w = None then Suc (uuid_counter w) else uuid_counter w)"
  "clock w \<le> clock (snd (log_activity uid act md w))"
  by (simp_all add: log_activity_def db_defs split: option.splits)

lemma check_agent_access_fst:
  "fst (check_agent_access uid aid w) =
     (if \<not> configured w then Inl not_configured
      else if aid \<in> set free_agents then Inr True
      else case refusal w of None \<Rightarrow> Inr (has_row uid aid w) | Some e \<Rightarrow> Inl e)"
  by (simp add: check_agent_access_def db_defs has_row_def split: option.splits)

lemma check_agent_access_static:
  "database_url (snd (check_agent_access uid aid w)) = database_url w"
  "user_agent_access (snd (check_agent_access uid aid w)) = user_agent_access w"
  "conversations (snd (check_agent_access uid aid w)) = conversations w"
  "messages (snd (check_agent_access uid aid w)) = messages w"
  "activity_logs (snd (check_agent_access uid aid w)) = activity_logs w"
  "uuid_of (snd (check_agent_access uid aid w)) = uuid_of w"
  "uuid_counter (snd (check_agent_access uid aid w)) = uuid_counter w"
  "clock (snd (check_agent_access uid aid w)) = clock w"
  "ticks (snd (check_agent_access uid aid w)) = ticks w"
  "openai_client (snd (check_agent_access uid aid w)) = openai_client w"
  "agents (snd (check_agent_access uid aid w)) = agents w"
  "configured (snd (check_agent_access uid aid w)) = configured w"
  by (simp_all add: check_agent_access_def db_defs split: option.splits)

lemma check_agent_access_effect:
  "pool (snd (check_agent_access uid aid w)) = (pool w \<or> configured w)"
  "outcomes (snd (check_agent_access uid aid w)) =
     (if configured w \<and> aid \<notin> set free_agents then tl (outcomes w) else outcomes w)"
  "trace (snd (check_agent_access uid aid w)) =
     trace w @
     (if configured w
      then conn_events w @
           (if aid \<notin> set free_agents \<and> refusal w = None
            then [Execute Select_user_agent_access] else []) @ [Release]
      else [])"
  by (simp_all add: check_agent_access_def db_defs split: option.splits)

lemma create_conversation_fst:
  "fst (create_conversation uid aid w) =
     (if \<not> configured w then Inl not_configured
      else case refusal w of None \<Rightarrow> Inr (fresh_uuid w) | Some e \<Rightarrow> Inl e)"
  by (simp add: create_conversation_def db_defs split: option.splits)

lemma create_conversation_static:
  "database_url (snd (create_conversation uid aid w)) = database_url w"
  "user_agent_access (snd (create_conversation uid aid w)) = user_agent_access w"
  "messages (snd (create_conversation uid aid w)) = messages w"
  "activity_logs (snd (create_conversation uid aid w)) = activity_logs w"
  "uuid_of (snd (create_conversation uid aid w)) = uuid_of w"
  "openai_client (snd (create_conversation uid aid w)) = openai_client w"
  "agents (snd (create_conversation uid aid w)) = agents w"
  "configured (snd (create_conversation uid aid w)) = configured w"
  by (simp_all add: create_conversation_def db_defs split: option.splits)

lemma create_conversation_effect:
  "pool (snd (create_conversation uid aid w)) = (pool w \<or> configured w)"
  "outcomes (snd (create_conversation uid aid w)) =
     (if configured w then tl (outcomes w) else outcomes w)"
  "trace (snd (create_conversation uid aid w)) =
     trace w @
     (if configured w
      then conn_events w @
           (if refusal w = None then [Execute Insert_conversations] else []) @ [Release]
      else [])"
  "length (conversations (snd (create_conversation uid aid w))) =
     (if configured w \<and> refusal w = None then Suc (length (conversations w))
      else length (conversations w))"
  "clock w \<le> clock (snd (create_conversation uid aid w))"
  by (simp_all add: create_conversation_def db_defs split: option.splits)

lemma create_conversation_refused:
  "\<not> (configured w \<and> refusal w = None) \<Longrightarrow>
     conversations (snd (create_conversation uid aid w)) = conversations w"
  by (auto simp add: create_conversation_def db_defs split: option.splits)

lemma save_message_fst:
  "fst (save_message cid r txt w) =
     (if \<not> configured w then Inl not_configured
      else case refusal w of
             Some e \<Rightarrow> Inl e
           | None \<Rightarrow> (case refusal2 w of None \<Rightarrow> Inr () | Some e \<Rightarrow> Inl e))"
  by (simp add: save_message_def db_defs split: option.splits)

lemma save_message_static:
  "database_url (snd (save_message cid r txt w)) = database_url w"
  "user_agent_access (snd (save_message cid r txt w)) = user_agent_access w"
  "activity_logs (snd (save_message cid r txt w)) = activity_logs w"
  "uuid_of (snd (save_message cid r txt w)) = uuid_of w"
  "openai_client (snd (save_message cid r txt w)) = openai_client w"
  "agents (snd (save_message cid r txt w)) = agents w"
  "configured (snd (save_message cid r txt w)) = configured w"
  "length (conversations (snd (save_message cid r txt w))) = length (conversations w)"
  by (simp_all add: save_message_def db_defs split: option.splits)

lemma save_message_effect:
  "pool (snd (save_message cid r txt w)) = (pool w \<or> configured w)"
  "outcomes (snd (save_message cid r txt w)) =
     (if configured w
      then (if refusal w = None then tl (tl (outcomes w)) else tl (outcomes w))
      else outcomes w)"
  "trace (snd (save_message cid r txt w)) =
     trace w @
     (if configured w
      then conn_events w @
           (if refusal w = None
            then Execute (Insert_messages r) #
                 (if refusal2 w = None then [Execute Update_conversations] else [])
            else []) @ [Release]
      else [])"
  "messages (snd (save_message cid r txt w)) =
     messages w @
     (if configured w \<and> refusal w = None
      then [\<lparr>msg_id = fresh_uuid w, msg_conversation_id = cid, role = r,
             content = txt, msg_created_at = clock (tick w)\<rparr>]
      else [])"
  "uuid_counter (snd (save_message cid r txt w)) =
     (if configured w \<and> refusal w = None then Suc (uuid_counter w) else uuid_counter w)"
  by (simp_all add: save_message_def db_defs split: option.splits)

lemma save_message_clock:
  "configured w \<Longrightarrow> refusal w = None \<Longrightarrow>
     clock (tick w) \<le> clock (snd (save_message cid r txt w))"
  "clock w \<le> clock (snd (save_message cid r txt w))"
  by (simp_all add: save_message_def db_defs split: option.splits)

subsection \<open>The steps of a request\<close>

text \<open>
  The body of the loop, one step after the other. A request ends at the first step that
  raises, at the validation or at the entitlement check, or it completes; the state after it
  is the state of that step with one more record sent.
\<close>

lemma op_trace:
  "trace (snd (log_activity uid act md w)) = trace w @ log_events w"
  "trace (snd (check_agent_access uid aid w)) = trace w @ check_events aid w"
  "trace (snd (create_conversation uid aid w)) = trace w @ conversation_events w"
  "trace (snd (save_message cid r txt w)) = trace w @ save_events r w"
  by (simp_all only: log_activity_effect check_agent_access_effect create_conversation_effect
        save_message_effect log_events_def check_events_def conversation_events_def
        save_events_def)

lemma op_rows:
  "messages (snd (save_message cid r txt w)) = messages w @ saved_rows cid r txt w"
  "activity_logs (snd (log_activity uid act md w)) = activity_logs w @ logged_rows uid act md w"
  by (simp_all only: save_message_effect log_activity_effect saved_rows_def logged_rows_def)

lemma try_block_generator_error:
  "raised g = Some e \<Longrightarrow>
   answer_from g uid aid cid w =
     (Inr (),
      w\<lparr>trace := trace w @ map (\<lambda>c. Send_text (Chunk_frame c cid)) (yields g) @
                 [Send_text (Error_frame (''Failed to get agent response: '' @ str_exn e))]\<rparr>)"
  by (simp add: answer_from_def relay_eq agent_response_error_def send_text_def emit_def)

lemma stream_never_raises: "raised (fst (get_agent_response_stream ag msg w)) = None"
  by (simp add: get_agent_response_stream_def raised_stream_deltas Let_def
           split: option.splits)

lemma generated_cong:
  "openai_client w' = openai_client w \<Longrightarrow> agents w' = agents w \<Longrightarrow>
   generated aid msg w' = generated aid msg w"
  by (simp add: generated_def get_agent_response_stream_def get_agent_def Let_def
           split: option.splits)

lemma backend_events_cong:
  "openai_client w' = openai_client w \<Longrightarrow> agents w' = agents w \<Longrightarrow>
   backend_events (get_agent aid w') w' = backend_events (get_agent aid w) w"
  by (simp add: backend_events_def get_agent_def)

lemma stream_response_eq:
  "stream_response uid aid msg cid w =
     (let w2 = after_relay aid msg cid w;
          full = concat (generated aid msg w) in
      case save_message cid ''assistant'' full w2 of
        (Inl e, w3) \<Rightarrow> agent_response_error e w3
      | (Inr _, w3) \<Rightarrow>
          (case log_activity uid ''message_received''
                  [(''agent_id'', JStr aid), (''conversation_id'', JStr cid),
                   (''response_length'', JInt (int (length full)))] w3 of
             (Inl e, w4) \<Rightarrow> agent_response_error e w4
           | (Inr _, w4) \<Rightarrow> (Inr (), send_text (Complete_frame cid) w4)))"
proof -
  obtain g w1 where gw: "get_agent_response_stream (get_agent aid w) msg w = (g, w1)"
    by (cases "get_agent_response_stream (get_agent aid w) msg w")
  have g: "g = fst (get_agent_response_stream (get_agent aid w) msg w)"
    and w1: "w1 = snd (get_agent_response_stream (get_agent aid w) msg w)"
    using gw by simp_all
  have r: "raised g = None" unfolding g by (rule stream_never_raises)
  have w1eq: "w1 = w\<lparr>trace := trace w @ backend_events (get_agent aid w) w\<rparr>"
    unfolding w1
    by (simp add: get_agent_response_stream_def backend_events_def emit_def Let_def
             split: option.splits)
  have "relay g cid [] w1 = (Inr (concat (generated aid msg w)), after_relay aid msg cid w)"
    using r by (simp add: relay_eq w1eq after_relay_def generated_def g)
  then show ?thesis
    by (simp add: stream_response_def answer_from_def gw Let_def)
qed

lemma after_relay_fields:
  "database_url (after_relay aid msg cid w) = database_url w"
  "pool (after_relay aid msg cid w) = pool w"
  "user_agent_access (after_relay aid msg cid w) = user_agent_access w"
  "messages (after_relay aid msg cid w) = messages w"
  "conversations (after_relay aid msg cid w) = conversations w"
  "activity_logs (after_relay aid msg cid w) = activity_logs w"
  "outcomes (after_relay aid msg cid w) = outcomes w"
  "clock (after_relay aid msg cid w) = clock w"
  "ticks (after_relay aid msg cid w) = ticks w"
  "openai_client (after_relay aid msg cid w) = openai_client w"
  "agents (after_relay aid msg cid w) = agents w"
  "configured (after_relay aid msg cid w) = configured w"
  "refusal (after_relay aid msg cid w) = refusal w"
  "refusal2 (after_relay aid msg cid w) = refusal2 w"
  "fresh_uuid (after_relay aid msg cid w) = fresh_uuid w"
  "clock (tick (after_relay aid msg cid w)) = clock (tick w)"
  "trace (after_relay aid msg cid w) =
     trace w @ backend_events (get_agent aid w) w @
       map (\<lambda>c. Send_text (Chunk_frame c cid)) (generated aid msg w)"
  by (simp_all add: after_relay_def configured_def fresh_uuid_def refusal_def refusal2_def
        clock_tick_eq)

lemmas stage_defs = received_def answered_def relayed_def user_saved_def
  resolved_def checked_def logged_def

lemma stage_static:
  "configured (logged req w) = configured w"
  "configured (checked req w) = configured w"
  "configured (resolved req w) = configured w"
  "configured (user_saved req w) = configured w"
  "configured (relayed req w) = configured w"
  "configured (answered req w) = configured w"
  "openai_client (user_saved req w) = openai_client w"
  "agents (user_saved req w) = agents w"
  "user_agent_access (logged req w) = user_agent_access w"
  by (simp_all add: stage_defs log_activity_static check_agent_access_static
        create_conversation_static save_message_static after_relay_fields)

lemma generated_user_saved:
  "generated aid msg (user_saved req w) = generated aid msg w"
  "backend_events (get_agent aid (user_saved req w)) (user_saved req w) =
     backend_events (get_agent aid w) w"
  by (rule generated_cong backend_events_cong; simp add: stage_static)+

lemmas result_defs = log_result_def check_result_def create_result_def user_save_result_def
  answer_save_result_def receipt_result_def

lemmas hm_simps = handle_message_def valid_def Let_def split_beta stage_defs result_defs
  conversation_of_def sent_meta_def received_meta_def answer_def

lemma hm_rejected:
  "\<not> valid req \<Longrightarrow>
   handle_message req w =
     (Inr (), send_text (Error_frame ''Missing required fields: user_id, agent_id, message'') w)"
  by (simp add: handle_message_def valid_def)

lemma hm_log_failed:
  "valid req \<Longrightarrow> log_result req w = Inl e \<Longrightarrow> handle_message req w = (Inl e, logged req w)"
  by (simp add: hm_simps)

lemma hm_check_failed:
  "valid req \<Longrightarrow> log_result req w = Inr x \<Longrightarrow> check_result req w = Inl e \<Longrightarrow>
   handle_message req w = (Inl e, checked req w)"
  by (simp add: hm_simps)

lemma hm_denied:
  "valid req \<Longrightarrow> log_result req w = Inr x \<Longrightarrow> check_result req w = Inr False \<Longrightarrow>
   handle_message req w =
     (Inr (), send_text (Error_frame ''Access denied to this agent. Payment required.'')
                (checked req w))"
  by (simp add: hm_simps)

lemma hm_create_failed:
  "valid req \<Longrightarrow> log_result req w = Inr x \<Longrightarrow> check_result req w = Inr True \<Longrightarrow>
   create_result req w = Inl e \<Longrightarrow>
   handle_message req w = (Inl e, resolved req w)"
  by (cases "truthy (req_conversation_id req)") (simp_all add: hm_simps)

lemma create_result_id:
  "create_result req w = Inr c \<Longrightarrow> c = conversation_of req w"
  by (auto simp add: create_result_def conversation_of_def create_conversation_fst
        split: if_splits option.splits)

lemma hm_user_save_failed:
  assumes "valid req" "log_result req w = Inr x" "check_result req w = Inr True"
    "create_result req w = Inr c" "user_save_result req w = Inl e"
  shows "handle_message req w = (Inl e, user_saved req w)"
proof -
  have c: "c = conversation_of req w" using assms(4) by (rule create_result_id)
  show ?thesis
    using assms unfolding c
    by (cases "truthy (req_conversation_id req)") (simp_all add: hm_simps)
qed

lemma hm_user_saved:
  assumes "valid req" "log_result req w = Inr x" "check_result req w = Inr True"
    "create_result req w = Inr c" "user_save_result req w = Inr y"
  shows "handle_message req w =
     stream_response (the (req_user_id req)) (the (req_agent_id req)) (the (req_message req))
       (conversation_of req w) (user_saved req w)"
proof -
  have c: "c = conversation_of req w" using assms(4) by (rule create_result_id)
  show ?thesis
    using assms unfolding c
    by (cases "truthy (req_conversation_id req)") (simp_all add: hm_simps)
qed

lemma relayed_eq:
  "after_relay (the (req_agent_id req)) (the (req_message req)) (conversation_of req w)
     (user_saved req w) = relayed req w"
  "concat (generated (the (req_agent_id req)) (the (req_message req)) (user_saved req w)) =
     answer req w"
  by (simp_all add: relayed_def answer_def generated_user_saved)

lemma sr_answer_save_failed:
  "answer_save_result req w = Inl e \<Longrightarrow>
   stream_response (the (req_user_id req)) (the (req_agent_id req)) (the (req_message req))
       (conversation_of req w) (user_saved req w) =
     (Inr (), send_text (response_error e) (answered req w))"
  by (simp add: stream_response_eq relayed_eq Let_def split_beta answer_save_result_def
        answered_def agent_response_error_def response_error_def)

lemma sr_receipt_failed:
  "answer_save_result req w = Inr x \<Longrightarrow> receipt_result req w = Inl e \<Longrightarrow>
   stream_response (the (req_user_id req)) (the (req_agent_id req)) (the (req_message req))
       (conversation_of req w) (user_saved req w) =
     (Inr (), send_text (response_error e) (received req w))"
  by (simp add: stream_response_eq relayed_eq Let_def split_beta answer_save_result_def
        receipt_result_def answered_def received_def received_meta_def
        agent_response_error_def response_error_def)

lemma sr_completed:
  "answer_save_result req w = Inr x \<Longrightarrow> receipt_result req w = Inr y \<Longrightarrow>
   stream_response (the (req_user_id req)) (the (req_agent_id req)) (the (req_message req))
       (conversation_of req w) (user_saved req w) =
     (Inr (), send_text (Complete_frame (conversation_of req w)) (received req w))"
  by (simp add: stream_response_eq relayed_eq Let_def split_beta answer_save_result_def
        receipt_result_def answered_def received_def received_meta_def)

lemma after_progress:
  "after req w =
     (case progress_of req w of
        Rejected \<Rightarrow>
          send_text (Error_frame ''Missing required fields: user_id, agent_id, message'') w
      | Log_failed e \<Rightarrow> send_text (connection_error e) (logged req w)
      | Check_failed e \<Rightarrow> send_text (connection_error e) (checked req w)
      | Denied \<Rightarrow>
          send_text (Error_frame ''Access denied to this agent. Payment required.'')
            (checked req w)
      | Create_failed e \<Rightarrow> send_text (connection_error e) (resolved req w)
      | User_save_failed e \<Rightarrow> send_text (connection_error e) (user_saved req w)
      | Answer_save_failed e \<Rightarrow> send_text (response_error e) (answered req w)
      | Receipt_failed e \<Rightarrow> send_text (response_error e) (received req w)
      | Completed \<Rightarrow> send_text (Complete_frame (conversation_of req w)) (received req w))"
proof (cases "valid req")
  case False
  then show ?thesis
    by (simp add: after_def websocket_endpoint_def hm_rejected progress_of_def)
next
  case v: True
  show ?thesis
  proof (cases "log_result req w")
    case (Inl e)
    with v show ?thesis
      by (simp add: after_def websocket_endpoint_def hm_log_failed progress_of_def
            connection_error_def)
  next
    case l: (Inr x)
    show ?thesis
    proof (cases "check_result req w")
      case (Inl e)
      with v l show ?thesis
        by (simp add: after_def websocket_endpoint_def hm_check_failed progress_of_def
              connection_error_def)
    next
      case (Inr acc)
      show ?thesis
      proof (cases acc)
        case False
        with v l Inr show ?thesis
          by (simp add: after_def websocket_endpoint_def hm_denied progress_of_def)
      next
        case True
        with Inr have k: "check_result req w = Inr True" by simp
        show ?thesis
        proof (cases "create_result req w")
          case (Inl e)
          with v l k show ?thesis
            by (simp add: after_def websocket_endpoint_def hm_create_failed progress_of_def
                  connection_error_def)
        next
          case c: (Inr c)
          show ?thesis
          proof (cases "user_save_result req w")
            case (Inl e)
            with v l k c show ?thesis
              by (simp add: after_def websocket_endpoint_def hm_user_save_failed
                    progress_of_def connection_error_def)
          next
            case u: (Inr y)
            note hm = hm_user_saved [OF v l k c u]
            show ?thesis
            proof (cases "answer_save_result req w")
              case (Inl e)
              with v l k c u show ?thesis
                by (simp add: after_def websocket_endpoint_def hm sr_answer_save_failed
                      progress_of_def)
            next
              case a: (Inr z)
              show ?thesis
              proof (cases "receipt_result req w")
                case (Inl e)
                with v l k c u a show ?thesis
                  by (simp add: after_def websocket_endpoint_def hm sr_receipt_failed
                        progress_of_def)
              next
                case (Inr z')
                with v l k c u a show ?thesis
                  by (simp add: after_def websocket_endpoint_def hm sr_completed
                        progress_of_def)
              qed
            qed
          qed
        qed
      qed
    qed
  qed
qed

subsection \<open>Events, records and rows of a request\<close>

text \<open>
  The events of a request, the records it sends and the rows it adds, for each way it can
  end.
\<close>

lemma drop_own: "drop (length xs) (xs @ ys) = ys"
  by simp

lemma frames_append: "frames (xs @ ys) = frames xs @ frames ys"
  by (induction xs rule: frames.induct) simp_all

lemma frames_chunks: "frames (map (\<lambda>c. Send_text (f c)) cs) = map f cs"
  by (induction cs) simp_all

lemma frames_silent:
  "frames (conn_events w) = []" "frames (backend_events ag w) = []"
  "frames (log_events w) = []" "frames (check_events aid w) = []"
  "frames (conversation_events w) = []" "frames (save_events r w) = []"
  by (simp_all add: conn_events_def backend_events_def log_events_def check_events_def
        conversation_events_def save_events_def frames_append)

lemma frames_stage:
  "frames (setup_events req w) = []"
  "frames (chunk_events req w) =
     map (\<lambda>c. Chunk_frame c (conversation_of req w))
         (generated (the (req_agent_id req)) (the (req_message req)) w)"
  "frames (answer_events req w) =
     map (\<lambda>c. Chunk_frame c (conversation_of req w))
         (generated (the (req_agent_id req)) (the (req_message req)) w)"
  by (simp_all add: setup_events_def chunk_events_def answer_events_def frames_append
        frames_silent frames_chunks)

lemma trace_logged: "trace (logged req w) = trace w @ log_events w"
  by (simp add: logged_def op_trace)

lemma trace_checked:
  "trace (checked req w) =
     trace w @ log_events w @ check_events (the (req_agent_id req)) (logged req w)"
  by (simp add: checked_def op_trace trace_logged)

lemma trace_resolved: "trace (resolved req w) = trace w @ setup_events req w"
  by (simp add: resolved_def op_trace trace_checked setup_events_def)

lemma trace_user_saved:
  "trace (user_saved req w) =
     trace w @ setup_events req w @ save_events ''user'' (resolved req w)"
  by (simp add: user_saved_def op_trace trace_resolved)

lemma trace_relayed:
  "trace (relayed req w) =
     trace w @ setup_events req w @ save_events ''user'' (resolved req w) @
     backend_events (get_agent (the (req_agent_id req)) w) w @ chunk_events req w"
  by (simp add: relayed_def after_relay_fields generated_user_saved trace_user_saved
        chunk_events_def)

lemma trace_answered: "trace (answered req w) = trace w @ answer_events req w"
  by (simp add: answered_def op_trace trace_relayed answer_events_def)

lemma trace_received:
  "trace (received req w) = trace w @ answer_events req w @ log_events (answered req w)"
  by (simp add: received_def op_trace trace_answered)

lemmas stage_trace = trace_logged trace_checked trace_resolved trace_user_saved trace_relayed
  trace_answered trace_received

lemma events_progress:
  "events_of req w =
     (case progress_of req w of
        Rejected \<Rightarrow>
          [Send_text (Error_frame ''Missing required fields: user_id, agent_id, message'')]
      | Log_failed e \<Rightarrow> log_events w @ [Send_text (connection_error e)]
      | Check_failed e \<Rightarrow>
          log_events w @ check_events (the (req_agent_id req)) (logged req w) @
          [Send_text (connection_error e)]
      | Denied \<Rightarrow>
          log_events w @ check_events (the (req_agent_id req)) (logged req w) @
          [Send_text (Error_frame ''Access denied to this agent. Payment required.'')]
      | Create_failed e \<Rightarrow> setup_events req w @ [Send_text (connection_error e)]
      | User_save_failed e \<Rightarrow>
          setup_events req w @ save_events ''user'' (resolved req w) @
          [Send_text (connection_error e)]
      | Answer_save_failed e \<Rightarrow> answer_events req w @ [Send_text (response_error e)]
      | Receipt_failed e \<Rightarrow>
          answer_events req w @ log_events (answered req w) @ [Send_text (response_error e)]
      | Completed \<Rightarrow>
          answer_events req w @ log_events (answered req w) @
          [Send_text (Complete_frame (conversation_of req w))])"
  by (cases "progress_of req w")
     (simp_all add: events_of_def after_progress send_text_def emit_def stage_trace)

lemma sent_progress:
  "sent req w =
     (case progress_of req w of
        Rejected \<Rightarrow> [Error_frame ''Missing required fields: user_id, agent_id, message'']
      | Log_failed e \<Rightarrow> [connection_error e]
      | Check_failed e \<Rightarrow> [connection_error e]
      | Denied \<Rightarrow> [Error_frame ''Access denied to this agent. Payment required.'']
      | Create_failed e \<Rightarrow> [connection_error e]
      | User_save_failed e \<Rightarrow> [connection_error e]
      | Answer_save_failed e \<Rightarrow>
          map (\<lambda>c. Chunk_frame c (conversation_of req w))
              (generated (the (req_agent_id req)) (the (req_message req)) w) @
          [response_error e]
      | Receipt_failed e \<Rightarrow>
          map (\<lambda>c. Chunk_frame c (conversation_of req w))
              (generated (the (req_agent_id req)) (the (req_message req)) w) @
          [response_error e]
      | Completed \<Rightarrow>
          map (\<lambda>c. Chunk_frame c (conversation_of req w))
              (generated (the (req_agent_id req)) (the (req_message req)) w) @
          [Complete_frame (conversation_of req w)])"
  by (cases "progress_of req w")
     (simp_all add: sent_def events_progress frames_append frames_silent frames_stage)

lemma messages_early:
  "messages (logged req w) = messages w" "messages (checked req w) = messages w"
  "messages (resolved req w) = messages w"
  by (simp_all add: logged_def checked_def resolved_def log_activity_static
        check_agent_access_static create_conversation_static)

lemma messages_user_saved:
  "messages (user_saved req w) =
     messages w @
     saved_rows (conversation_of req w) ''user'' (the (req_message req)) (resolved req w)"
  by (simp add: user_saved_def op_rows messages_early)

lemma messages_answered:
  "messages (answered req w) =
     messages w @
     saved_rows (conversation_of req w) ''user'' (the (req_message req)) (resolved req w) @
     saved_rows (conversation_of req w) ''assistant'' (answer req w) (relayed req w)"
  "messages (received req w) = messages (answered req w)"
  by (simp_all add: answered_def received_def relayed_def op_rows after_relay_fields
        messages_user_saved log_activity_static)

lemma tables_early:
  "conversations (logged req w) = conversations w"
  "conversations (checked req w) = conversations w"
  "activity_logs (logged req w) =
     activity_logs w @
     logged_rows (the (req_user_id req)) ''message_sent'' (sent_meta req) w"
  "activity_logs (checked req w) = activity_logs (logged req w)"
  by (simp_all add: logged_def checked_def op_rows log_activity_static
        check_agent_access_static)

lemmas stage_tables = messages_early messages_user_saved messages_answered tables_early

lemma progress_cases:
  "progress_of req w = Rejected \<Longrightarrow> \<not> valid req"
  "progress_of req w = Log_failed e \<Longrightarrow> valid req \<and> log_result req w = Inl e"
  "progress_of req w = Check_failed e \<Longrightarrow>
     valid req \<and> log_result req w = Inr () \<and> check_result req w = Inl e"
  "progress_of req w = Denied \<Longrightarrow>
     valid req \<and> log_result req w = Inr () \<and> check_result req w = Inr False"
  "progress_of req w = Create_failed e \<Longrightarrow>
     valid req \<and> log_result req w = Inr () \<and> check_result req w = Inr True \<and>
     create_result req w = Inl e"
  "progress_of req w = User_save_failed e \<Longrightarrow>
     valid req \<and> log_result req w = Inr () \<and> check_result req w = Inr True \<and>
     user_save_result req w = Inl e"
  "progress_of req w = Answer_save_failed e \<Longrightarrow>
     valid req \<and> log_result req w = Inr () \<and> check_result req w = Inr True \<and>
     user_save_result req w = Inr () \<and> answer_save_result req w = Inl e"
  "progress_of req w = Receipt_failed e \<Longrightarrow>
     valid req \<and> log_result req w = Inr () \<and> check_result req w = Inr True \<and>
     user_save_result req w = Inr () \<and> answer_save_result req w = Inr () \<and>
     receipt_result req w = Inl e"
  "progress_of req w = Completed \<Longrightarrow>
     valid req \<and> log_result req w = Inr () \<and> check_result req w = Inr True \<and>
     user_save_result req w = Inr () \<and> answer_save_result req w = Inr () \<and>
     receipt_result req w = Inr ()"
  by (auto simp add: progress_of_def split: if_splits sum.splits)

lemma result_facts:
  "log_result req w = Inr x \<Longrightarrow> configured w \<and> refusal w = None"
  "user_save_result req w = Inr y \<Longrightarrow>
     configured w \<and> refusal (resolved req w) = None \<and> refusal2 (resolved req w) = None"
  "answer_save_result req w = Inr z \<Longrightarrow>
     configured w \<and> refusal (relayed req w) = None \<and> refusal2 (relayed req w) = None"
  "receipt_result req w = Inr v \<Longrightarrow> configured w \<and> refusal (answered req w) = None"
  by (auto simp add: result_defs log_activity_fst save_message_fst stage_static
        split: if_splits option.splits)

subsection \<open>Requests none of whose statements is refused\<close>

text \<open>
  A valid request of an entitled user on a configured database completes when the server
  refuses no statement.
\<close>

lemma list_all_tl: "list_all P xs \<Longrightarrow> list_all P (tl xs)"
  by (cases xs) simp_all

lemma no_refusal_next:
  "no_refusal w \<Longrightarrow> refusal w = None" "no_refusal w \<Longrightarrow> refusal2 w = None"
proof -
  assume a: "no_refusal w"
  then show "refusal w = None"
    by (auto simp add: no_refusal_def refusal_def split: list.splits option.splits)
  from a have "list_all (\<lambda>out. out = None) (tl (outcomes w))"
    unfolding no_refusal_def by (rule list_all_tl)
  then show "refusal2 w = None"
    by (auto simp add: refusal2_def split: list.splits option.splits)
qed

lemma no_refusal_op:
  "no_refusal w \<Longrightarrow> no_refusal (snd (log_activity uid act md w))"
  "no_refusal w \<Longrightarrow> no_refusal (snd (check_agent_access uid aid w))"
  "no_refusal w \<Longrightarrow> no_refusal (snd (create_conversation uid aid w))"
  "no_refusal w \<Longrightarrow> no_refusal (snd (save_message cid r txt w))"
  "no_refusal w \<Longrightarrow> no_refusal (after_relay aid msg cid w)"
  by (simp_all add: no_refusal_def log_activity_effect check_agent_access_effect
        create_conversation_effect save_message_effect after_relay_fields list_all_tl)

lemma no_refusal_stage:
  assumes "no_refusal w"
  shows "no_refusal (logged req w)" "no_refusal (checked req w)" "no_refusal (resolved req w)"
    "no_refusal (user_saved req w)" "no_refusal (relayed req w)" "no_refusal (answered req w)"
proof -
  show 1: "no_refusal (logged req w)"
    unfolding logged_def using assms by (rule no_refusal_op)
  show 2: "no_refusal (checked req w)"
    unfolding checked_def using 1 by (rule no_refusal_op)
  show 3: "no_refusal (resolved req w)"
    using 2 by (simp add: resolved_def no_refusal_op)
  show 4: "no_refusal (user_saved req w)"
    unfolding user_saved_def using 3 by (rule no_refusal_op)
  show 5: "no_refusal (relayed req w)"
    unfolding relayed_def using 4 by (rule no_refusal_op)
  show "no_refusal (answered req w)"
    unfolding answered_def using 5 by (rule no_refusal_op)
qed

lemma has_row_logged: "has_row u a (logged req w) = has_row u a w"
  by (simp add: has_row_def stage_static)

lemma completed:
  assumes "valid req" "configured w" "no_refusal w" "entitled req w"
  shows "progress_of req w = Completed"
proof -
  note n = no_refusal_stage [OF assms(3), of req]
  have l: "log_result req w = Inr ()"
    using assms by (simp add: log_result_def log_activity_fst no_refusal_next)
  have k: "check_result req w = Inr True"
    using assms n(1)
    by (auto simp add: check_result_def check_agent_access_fst stage_static no_refusal_next
          entitled_def has_row_logged)
  have c: "create_result req w = Inr (conversation_of req w)"
    using assms n(2)
    by (simp add: create_result_def conversation_of_def create_conversation_fst stage_static
          no_refusal_next)
  have u: "user_save_result req w = Inr ()"
    using assms n(3)
    by (simp add: user_save_result_def save_message_fst stage_static no_refusal_next)
  have a: "answer_save_result req w = Inr ()"
    using assms n(5)
    by (simp add: answer_save_result_def save_message_fst stage_static no_refusal_next)
  have r: "receipt_result req w = Inr ()"
    using assms n(6)
    by (simp add: receipt_result_def log_activity_fst stage_static no_refusal_next)
  show ?thesis
    using assms(1) by (simp add: progress_of_def l k c u a r)
qed

lemma rows_carried:
  "user_save_result req w = Inr x \<Longrightarrow>
   saved_rows (conversation_of req w) ''user'' (the (req_message req)) (resolved req w) =
     [\<lparr>msg_id = fresh_uuid (resolved req w), msg_conversation_id = conversation_of req w,
       role = ''user'', content = the (req_message req),
       msg_created_at = clock (tick (resolved req w))\<rparr>]"
  "answer_save_result req w = Inr y \<Longrightarrow>
   saved_rows (conversation_of req w) ''assistant'' (answer req w) (relayed req w) =
     [\<lparr>msg_id = fresh_uuid (relayed req w), msg_conversation_id = conversation_of req w,
       role = ''assistant'', content = answer req w,
       msg_created_at = clock (tick (relayed req w))\<rparr>]"
  by (auto simp add: saved_rows_def stage_static dest: result_facts)

lemma new_messages_progress:
  "new_messages req w =
     (case progress_of req w of
        User_save_failed e \<Rightarrow>
          saved_rows (conversation_of req w) ''user'' (the (req_message req)) (resolved req w)
      | Answer_save_failed e \<Rightarrow>
          saved_rows (conversation_of req w) ''user'' (the (req_message req)) (resolved req w) @
          saved_rows (conversation_of req w) ''assistant'' (answer req w) (relayed req w)
      | Receipt_failed e \<Rightarrow>
          saved_rows (conversation_of req w) ''user'' (the (req_message req)) (resolved req w) @
          saved_rows (conversation_of req w) ''assistant'' (answer req w) (relayed req w)
      | Completed \<Rightarrow>
          saved_rows (conversation_of req w) ''user'' (the (req_message req)) (resolved req w) @
          saved_rows (conversation_of req w) ''assistant'' (answer req w) (relayed req w)
      | _ \<Rightarrow> [])"
  by (cases "progress_of req w")
     (simp_all add: new_messages_def after_progress send_text_def emit_def stage_tables)

lemma timestamps_in_order:
  assumes "configured w" "refusal (resolved req w) = None"
  shows "clock (tick (resolved req w)) \<le> clock (tick (relayed req w))"
proof -
  have "configured (resolved req w)" using assms(1) by (simp add: stage_static)
  then have "clock (tick (resolved req w)) \<le> clock (user_saved req w)"
    unfolding user_saved_def using assms(2) by (rule save_message_clock(1))
  also have "\<dots> = clock (relayed req w)" by (simp add: relayed_def after_relay_fields)
  also have "\<dots> \<le> clock (tick (relayed req w))" by (rule clock_tick)
  finally show ?thesis .
qed

lemma chunk_contents_cycle:
  "chunk_contents (map (\<lambda>c. Chunk_frame c cid) cs @ [Complete_frame cid']) = cs"
  by (induction cs) simp_all

lemma terminal_cycle:
  "filter is_terminal (map (\<lambda>c. Chunk_frame c cid) cs @ [t]) = filter is_terminal [t]"
  by (induction cs) simp_all

lemma complete_not_chunk:
  "Complete_frame cid \<notin> set (map (\<lambda>c. Chunk_frame c cid') cs)"
  by (induction cs) simp_all

subsection \<open>What the generator yields\<close>

lemma yields_stream_deltas:
  "yields (stream_deltas s) =
     contents s @ (case raised s of None \<Rightarrow> [] | Some e \<Rightarrow> [apology e])"
  by (induction s rule: stream_deltas.induct) simp_all

lemma generated_client:
  "openai_client w = Some create \<Longrightarrow> agents w aid = Some ag \<Longrightarrow>
   generated aid msg w = yields (stream_deltas (create (prompt_of ag) msg))"
  by (simp add: generated_def get_agent_response_stream_def get_agent_def)

lemma generated_no_client:
  "openai_client w = None \<Longrightarrow> generated aid msg w = [unavailable_text]"
  by (simp add: generated_def get_agent_response_stream_def)

lemma generated_unavailable:
  "unavailable w aid msg = Some txt \<Longrightarrow> generated aid msg w = [txt]"
  by (auto simp: unavailable_def generated_def get_agent_response_stream_def get_agent_def
           split: option.splits agen.splits)

lemma conversation_of_eq:
  "configured w \<Longrightarrow> refusal w = None \<Longrightarrow>
   conversation_of req w =
     (if truthy (req_conversation_id req) then the (req_conversation_id req)
      else uuid_of w (Suc (uuid_counter w)))"
  by (simp add: conversation_of_def checked_def logged_def fresh_uuid_def
        check_agent_access_static log_activity_static log_activity_effect)

lemma messages_completed:
  assumes "progress_of req w = Completed"
  shows "map role (new_messages req w) = [''user'', ''assistant'']"
    "map content (new_messages req w) = [the (req_message req), answer req w]"
proof -
  from assms have u: "user_save_result req w = Inr ()" and a: "answer_save_result req w = Inr ()"
    by (simp_all add: progress_cases)
  show "map role (new_messages req w) = [''user'', ''assistant'']"
    "map content (new_messages req w) = [the (req_message req), answer req w]"
    by (simp_all add: new_messages_progress assms rows_carried(1) [OF u] rows_carried(2) [OF a])
qed

subsection \<open>The concrete states and requests\<close>

lemma fixtures:
  "valid req_hi" "valid req_paid" "\<not> valid req_no_message"
  "configured world0" "configured (scripted s)"
  "no_refusal world0" "no_refusal (scripted s)"
  "entitled req_hi w" "\<not> entitled req_paid world0"
  by (simp_all add: valid_def req_hi_def req_paid_def req_no_message_def configured_def
        world0_def scripted_def entitled_def free_agents_def has_row_def no_refusal_def
        alice_def)

lemma fixture_fields:
  "the (req_user_id req_hi) = alice" "the (req_agent_id req_hi) = ''creative-writer''"
  "the (req_message req_hi) = ''hi''" "req_conversation_id req_hi = None"
  "the (req_user_id req_paid) = alice" "the (req_agent_id req_paid) = ''data-scientist''"
  "the (req_message req_paid) = ''hi''" "req_conversation_id req_paid = None"
  by (simp_all add: req_hi_def req_paid_def)

lemma fixture_conversation:
  "conversation_of req_hi world0 = sample_uuid 1"
  "conversation_of req_hi (scripted s) = sample_uuid 1"
  "conversation_of req_paid world0 = sample_uuid 1"
proof -
  have r: "refusal world0 = None" "refusal (scripted s) = None"
    by (simp_all add: no_refusal_next fixtures)
  show "conversation_of req_hi world0 = sample_uuid 1"
    "conversation_of req_hi (scripted s) = sample_uuid 1"
    "conversation_of req_paid world0 = sample_uuid 1"
    by (simp_all add: conversation_of_eq fixtures r fixture_fields)
       (simp_all add: world0_def scripted_def)
qed

subsection \<open>C1: an error of the backend in the middle of the stream\<close>

text \<open>
  Claim C1 says that when the Response Generator raises after some fragments, the session
  sends an error record and no "complete" record, and persists no assistant message.

  Counterexample to C1 (Scenario C of the specification), for a registered user and a server
  that carries out every statement. The backend stream yields \<open>Hel\<close> and \<open>lo\<close> and then
  raises. The client receives three chunk records, the third being the text that
  \<open>get_agent_response_stream\<close> makes of the exception, and then a "complete" record; no
  error record is sent, and an assistant message holding the partial answer followed by that
  text is persisted.
\<close>

theorem scenario_C_counterexample:
  "sent req_hi (scripted (Yield (Some ''Hel'') (Yield (Some ''lo'') (Raise (APIError ''boom''))))) =
     [Chunk_frame ''Hel'' (sample_uuid 1), Chunk_frame ''lo'' (sample_uuid 1),
      Chunk_frame ''Sorry, I encountered an error: boom'' (sample_uuid 1),
      Complete_frame (sample_uuid 1)] \<and>
   map role (new_messages req_hi
      (scripted (Yield (Some ''Hel'') (Yield (Some ''lo'') (Raise (APIError ''boom'')))))) =
     [''user'', ''assistant''] \<and>
   map content (new_messages req_hi
      (scripted (Yield (Some ''Hel'') (Yield (Some ''lo'') (Raise (APIError ''boom'')))))) =
     [''hi'', ''HelloSorry, I encountered an error: boom'']"
proof -
  let ?w = "scripted (Yield (Some ''Hel'') (Yield (Some ''lo'') (Raise (APIError ''boom''))))"
  have g: "generated ''creative-writer'' ''hi'' ?w =
             [''Hel'', ''lo'', ''Sorry, I encountered an error: boom'']"
    by (simp add: generated_def get_agent_response_stream_def scripted_def world0_def
          get_agent_def initial_agents_def apology_def)
  have p: "progress_of req_hi ?w = Completed"
    by (rule completed) (simp_all add: fixtures)
  show ?thesis
    by (simp add: sent_progress messages_completed p g fixture_fields fixture_conversation
          answer_def)
qed

text \<open>
  Claim C1 as amended. For a request that passes validation, of a user entitled to the
  agent, on a configured database whose server refuses no statement of the request, with a
  known agent: if the backend stream raises \<open>e\<close>, then \<open>get_agent_response_stream\<close>
  catches it and yields one more fragment, \<open>"Sorry, I encountered an error: " + str(e)\<close>,
  after which it ends. The session relays the fragments emitted before the error and then
  this text, each as a chunk record, and no fragment of the backend after it; it sends a
  "complete" record and no error record; the user message is persisted, and so is an
  assistant message whose text is the fragments emitted so far followed by that text.
\<close>

theorem generator_failure_is_relayed_as_text:
  assumes "valid req" and "configured w" and "no_refusal w" and "entitled req w"
    and "openai_client w = Some create"
    and "agents w (the (req_agent_id req)) = Some ag"
    and "raised (create (prompt_of ag) (the (req_message req))) = Some e"
  shows "sent req w =
           map (\<lambda>c. Chunk_frame c (conversation_of req w))
               (contents (create (prompt_of ag) (the (req_message req))) @ [apology e]) @
           [Complete_frame (conversation_of req w)] \<and>
         map role (new_messages req w) = [''user'', ''assistant''] \<and>
         map content (new_messages req w) =
           [the (req_message req),
            concat (contents (create (prompt_of ag) (the (req_message req)))) @ apology e]"
proof -
  have p: "progress_of req w = Completed"
    using assms(1-4) by (rule completed)
  show ?thesis
    using assms(5-7)
    by (simp add: sent_progress messages_completed p answer_def generated_client
          yields_stream_deltas)
qed

text \<open>
  C1, witness: the amended statement at a stream that yields \<open>a\<close> and then raises, for a
  registered user.
\<close>

theorem generator_failure_is_relayed_as_text_witness:
  "valid req_hi \<and> configured (scripted (Yield (Some ''a'') (Raise (APIError ''down'')))) \<and>
   no_refusal (scripted (Yield (Some ''a'') (Raise (APIError ''down'')))) \<and>
   entitled req_hi (scripted (Yield (Some ''a'') (Raise (APIError ''down'')))) \<and>
   raised (Yield (Some ''a'') (Raise (APIError ''down''))) = Some (APIError ''down'') \<and>
   sent req_hi (scripted (Yield (Some ''a'') (Raise (APIError ''down'')))) =
     [Chunk_frame ''a'' (sample_uuid 1),
      Chunk_frame ''Sorry, I encountered an error: down'' (sample_uuid 1),
      Complete_frame (sample_uuid 1)] \<and>
   map content (new_messages req_hi (scripted (Yield (Some ''a'') (Raise (APIError ''down''))))) =
     [''hi'', ''aSorry, I encountered an error: down'']"
proof -
  let ?s = "Yield (Some ''a'') (Raise (APIError ''down''))"
  have a: "openai_client (scripted ?s) = Some (\<lambda>prompt msg. ?s)"
    by (simp add: scripted_def)
  have b: "agents (scripted ?s) (the (req_agent_id req_hi)) = Some creative_writer"
    by (simp add: scripted_def world0_def initial_agents_def req_hi_def)
  have r: "raised ((\<lambda>prompt msg. ?s) (prompt_of creative_writer) (the (req_message req_hi))) =
             Some (APIError ''down'')"
    by simp
  show ?thesis
    using generator_failure_is_relayed_as_text
            [OF fixtures(1) fixtures(5) fixtures(7) fixtures(8) a b r]
    by (simp add: fixture_conversation apology_def fixture_fields fixtures)
qed

subsection \<open>C2: the relayed chunks and the persisted answer\<close>

text \<open>
  Claim C2. For every successful streamed request (one for which a "complete" record is
  sent), the contents of the chunk records, in the order sent, are the fragments of the
  generator in the order it yields them, and there is exactly one assistant message among
  the messages the request persists, whose text is the concatenation of those contents.
\<close>

theorem relayed_chunks_are_the_persisted_answer:
  assumes "Complete_frame cid \<in> set (sent req w)"
  shows "chunk_contents (sent req w) =
           generated (the (req_agent_id req)) (the (req_message req)) w \<and>
         map content (filter (\<lambda>m. role m = ''assistant'') (new_messages req w)) =
           [concat (chunk_contents (sent req w))]"
proof -
  have p: "progress_of req w = Completed"
    using assms
    by (cases "progress_of req w")
       (auto simp add: sent_progress connection_error_def response_error_def)
  then have u: "user_save_result req w = Inr ()" and a: "answer_save_result req w = Inr ()"
    by (simp_all add: progress_cases)
  have m: "map content (filter (\<lambda>m. role m = ''assistant'') (new_messages req w)) =
             [answer req w]"
    by (simp add: new_messages_progress p rows_carried(1) [OF u] rows_carried(2) [OF a])
  show ?thesis
    by (simp add: m sent_progress p chunk_contents_cycle answer_def)
qed

text \<open>
  C2, witness: a backend stream of \<open>Hel\<close>, a delta without content, and \<open>lo\<close>.
\<close>

theorem relayed_chunks_are_the_persisted_answer_witness:
  "Complete_frame (sample_uuid 1) \<in>
     set (sent req_hi (scripted (Yield (Some ''Hel'') (Yield None (Yield (Some ''lo'') Stop))))) \<and>
   chunk_contents
     (sent req_hi (scripted (Yield (Some ''Hel'') (Yield None (Yield (Some ''lo'') Stop))))) =
     [''Hel'', ''lo''] \<and>
   map content (filter (\<lambda>m. role m = ''assistant'')
      (new_messages req_hi
         (scripted (Yield (Some ''Hel'') (Yield None (Yield (Some ''lo'') Stop)))))) =
     [''Hello'']"
proof -
  let ?w = "scripted (Yield (Some ''Hel'') (Yield None (Yield (Some ''lo'') Stop)))"
  have g: "generated ''creative-writer'' ''hi'' ?w = [''Hel'', ''lo'']"
    by (simp add: generated_def get_agent_response_stream_def scripted_def world0_def
          get_agent_def initial_agents_def)
  have p: "progress_of req_hi ?w = Completed"
    by (rule completed) (simp_all add: fixtures)
  have h: "Complete_frame (sample_uuid 1) \<in> set (sent req_hi ?w)"
    by (simp add: sent_progress p fixture_conversation)
  show ?thesis
    using h relayed_chunks_are_the_persisted_answer [OF h] by (simp add: g fixture_fields)
qed

subsection \<open>C3: one terminal record for each request\<close>

text \<open>
  Claim C3. For every request and every state, whatever statements the server refuses, the
  records sent for the request hold exactly one terminal record (a "complete" record or an
  error record), and it is the last record sent; every record before it is therefore a chunk
  record. An exception of a step before the relay is answered by the outer handler, one of a
  step after it by the inner handler, and each sends one error record.
\<close>

theorem exactly_one_terminal_frame:
  "length (filter is_terminal (sent req w)) = 1 \<and> is_terminal (last (sent req w))"
  by (cases "progress_of req w")
     (simp_all add: sent_progress connection_error_def response_error_def terminal_cycle)

text \<open>The request of Scenario A in a state whose server refuses the assistant message.\<close>

lemma outcomes_stage:
  "outcomes (logged req w) = (if configured w then tl (outcomes w) else outcomes w)"
  "outcomes (checked req w) =
     (if configured w \<and> the (req_agent_id req) \<notin> set free_agents
      then tl (outcomes (logged req w)) else outcomes (logged req w))"
  "outcomes (resolved req w) =
     (if \<not> truthy (req_conversation_id req) \<and> configured w
      then tl (outcomes (checked req w)) else outcomes (checked req w))"
  "outcomes (user_saved req w) =
     (if configured w
      then (if refusal (resolved req w) = None then tl (tl (outcomes (resolved req w)))
            else tl (outcomes (resolved req w)))
      else outcomes (resolved req w))"
  "outcomes (relayed req w) = outcomes (user_saved req w)"
  by (simp_all add: logged_def checked_def resolved_def user_saved_def relayed_def
        log_activity_effect check_agent_access_effect create_conversation_effect
        save_message_effect after_relay_fields log_activity_static check_agent_access_static
        create_conversation_static
        stage_static [unfolded logged_def checked_def resolved_def])

lemma refusing_fields:
  "configured refusing"
  "outcomes refusing = [None, None, None, None, Some ''connection is closed'']"
  "generated ''creative-writer'' ''hi'' refusing = [''Hel'']"
  by (simp_all add: refusing_def scripted_def world0_def configured_def generated_def
        get_agent_response_stream_def get_agent_def initial_agents_def)

lemma refusing_stages:
  "refusal refusing = None"
  "refusal (checked req_hi refusing) = None"
  "refusal (resolved req_hi refusing) = None"
  "refusal2 (resolved req_hi refusing) = None"
  "refusal (relayed req_hi refusing) = Some (PostgresError ''connection is closed'')"
  by (simp_all add: refusal_def refusal2_def outcomes_stage refusing_fields fixture_fields
        free_agents_def)

lemma refusing_progress:
  "progress_of req_hi refusing = Answer_save_failed (PostgresError ''connection is closed'')"
  by (simp add: progress_of_def fixtures result_defs log_activity_fst check_agent_access_fst
        create_conversation_fst save_message_fst stage_static refusing_fields refusing_stages
        fixture_fields free_agents_def)

lemma refusing_conversation: "conversation_of req_hi refusing = sample_uuid 1"
  by (simp add: conversation_of_eq refusing_fields refusing_stages fixture_fields)
     (simp add: refusing_def scripted_def world0_def)

text \<open>
  C3, witness: the server refuses the \<open>INSERT\<close> of the assistant message after one chunk
  has been relayed; the inner handler sends the error record, and no "complete" record
  follows.
\<close>

theorem exactly_one_terminal_frame_witness:
  "sent req_hi refusing =
     [Chunk_frame ''Hel'' (sample_uuid 1),
      Error_frame ''Failed to get agent response: connection is closed''] \<and>
   length (filter is_terminal (sent req_hi refusing)) = 1 \<and>
   is_terminal (last (sent req_hi refusing))"
proof -
  have s: "sent req_hi refusing =
             [Chunk_frame ''Hel'' (sample_uuid 1),
              Error_frame ''Failed to get agent response: connection is closed'']"
    by (simp add: sent_progress refusing_progress refusing_fields fixture_fields
          refusing_conversation response_error_def)
  show ?thesis
    using exactly_one_terminal_frame [of req_hi refusing] by (simp add: s)
qed

subsection \<open>C4: the backend is unconfigured or unreachable\<close>

text \<open>
  Claim C4 says that an unreachable or unconfigured Response Generator is surfaced to the
  client as an error record.

  Counterexample to C4 (Scenario D of the specification), for a registered user and a server
  that carries out every statement. Without an API key the client receives the explanatory
  text as a chunk record and then a "complete" record; no error record is sent.
\<close>

theorem scenario_D_counterexample:
  "sent req_hi world0 =
     [Chunk_frame ''AI chat is not available. Please configure OpenAI API key.'' (sample_uuid 1),
      Complete_frame (sample_uuid 1)]"
proof -
  have g: "generated (the (req_agent_id req_hi)) (the (req_message req_hi)) world0 =
             [unavailable_text]"
    by (rule generated_no_client) (simp add: world0_def)
  have p: "progress_of req_hi world0 = Completed"
    by (rule completed) (simp_all add: fixtures)
  show ?thesis
    by (simp add: sent_progress p g fixture_conversation unavailable_text_def)
qed

text \<open>
  Claim C4 as amended. For a request that passes validation, of a user entitled to the
  agent, on a configured database whose server refuses no statement of the request: when the
  Response Generator is unconfigured (no client) or unreachable (\<open>create\<close> raises before
  any delta), the explanatory text is sent to the client as one chunk record followed by a
  "complete" record, and no error record is sent; the user's message is persisted, followed
  by an assistant message whose text is the explanatory text.
\<close>

theorem unavailable_backend_is_answered_in_band:
  assumes "valid req" and "configured w" and "no_refusal w" and "entitled req w"
    and "unavailable w (the (req_agent_id req)) (the (req_message req)) = Some txt"
  shows "sent req w =
           [Chunk_frame txt (conversation_of req w), Complete_frame (conversation_of req w)] \<and>
         map role (new_messages req w) = [''user'', ''assistant''] \<and>
         map content (new_messages req w) = [the (req_message req), txt]"
proof -
  have p: "progress_of req w = Completed"
    using assms(1-4) by (rule completed)
  show ?thesis
    using assms(5)
    by (simp add: sent_progress messages_completed p answer_def generated_unavailable)
qed

text \<open>
  C4, witness: the amended statement at a backend whose \<open>create\<close> raises, for a
  registered user.
\<close>

theorem unavailable_backend_is_answered_in_band_witness:
  "valid req_hi \<and> configured (scripted (Raise (APIError ''Connection error.''))) \<and>
   no_refusal (scripted (Raise (APIError ''Connection error.''))) \<and>
   entitled req_hi (scripted (Raise (APIError ''Connection error.''))) \<and>
   unavailable (scripted (Raise (APIError ''Connection error.'')))
      (the (req_agent_id req_hi)) (the (req_message req_hi)) =
     Some ''Sorry, I encountered an error: Connection error.'' \<and>
   sent req_hi (scripted (Raise (APIError ''Connection error.''))) =
     [Chunk_frame ''Sorry, I encountered an error: Connection error.'' (sample_uuid 1),
      Complete_frame (sample_uuid 1)] \<and>
   map role (new_messages req_hi (scripted (Raise (APIError ''Connection error.'')))) =
     [''user'', ''assistant''] \<and>
   map content (new_messages req_hi (scripted (Raise (APIError ''Connection error.'')))) =
     [''hi'', ''Sorry, I encountered an error: Connection error.'']"
proof -
  let ?w = "scripted (Raise (APIError ''Connection error.''))"
  have u: "unavailable ?w (the (req_agent_id req_hi)) (the (req_message req_hi)) =
             Some ''Sorry, I encountered an error: Connection error.''"
    by (simp add: unavailable_def scripted_def world0_def initial_agents_def req_hi_def
          apology_def)
  show ?thesis
    using u unavailable_backend_is_answered_in_band
              [OF fixtures(1) fixtures(5) fixtures(7) fixtures(8) u]
    by (simp add: fixture_conversation fixture_fields fixtures)
qed

subsection \<open>C5: the activity log of a denied request\<close>

text \<open>
  A request is denied when it is valid, its "message_sent" event has been inserted and the
  entitlement check has returned false: then the agent is not free and the server has
  carried out both statements.
\<close>

lemma denied_progress:
  "valid req \<Longrightarrow> log_result req w = Inr () \<Longrightarrow> check_result req w = Inr False \<Longrightarrow>
   progress_of req w = Denied"
  by (simp add: progress_of_def)

lemma denied_facts:
  assumes "check_result req w = Inr False"
  shows "the (req_agent_id req) \<notin> set free_agents" "refusal (logged req w) = None"
  using assms
  by (auto simp add: check_result_def check_agent_access_fst split: if_splits option.splits)

lemma denied_fixture:
  "log_result req_paid world0 = Inr ()" "check_result req_paid world0 = Inr False"
proof -
  have n: "no_refusal (logged req_paid world0)"
    by (rule no_refusal_stage) (rule fixtures)
  show "log_result req_paid world0 = Inr ()"
    by (simp add: log_result_def log_activity_fst fixtures no_refusal_next)
  show "check_result req_paid world0 = Inr False"
    using fixtures(9)
    by (simp add: check_result_def check_agent_access_fst stage_static fixtures
          no_refusal_next n entitled_def has_row_logged)
qed

lemma denied_effects:
  assumes "valid req" and "log_result req w = Inr ()" and "check_result req w = Inr False"
  shows "map action (new_activity req w) = [''message_sent'']"
    "events_of req w =
       conn_events w @
       [Execute Insert_activity_logs, Release,
        Acquire, Execute Select_user_agent_access, Release,
        Send_text (Error_frame ''Access denied to this agent. Payment required.'')]"
proof -
  have p: "progress_of req w = Denied"
    using assms by (rule denied_progress)
  have l: "configured w" "refusal w = None"
    using result_facts(1) [OF assms(2)] by simp_all
  note d = denied_facts [OF assms(3)]
  have q: "pool (logged req w)"
    by (simp add: logged_def log_activity_effect l)
  show "map action (new_activity req w) = [''message_sent'']"
    by (simp add: new_activity_def after_progress p send_text_def emit_def stage_tables
          logged_rows_def l)
  show "events_of req w =
       conn_events w @
       [Execute Insert_activity_logs, Release,
        Acquire, Execute Select_user_agent_access, Release,
        Send_text (Error_frame ''Access denied to this agent. Payment required.'')]"
    by (simp add: events_progress p log_events_def check_events_def l d stage_static
          conn_events_def [of "logged req w"] q)
qed

text \<open>
  Claim C5 says that no "message_sent" activity event is recorded for a request denied by the
  entitlement check.

  Counterexample to C5. For the request of a registered user without entitlement to the paid
  agent \<open>data-scientist\<close>, on a server that carries out every statement, the one activity
  event recorded is "message_sent".
\<close>

theorem denied_request_counterexample:
  "map action (new_activity req_paid world0) = [''message_sent'']"
  by (rule denied_effects(1)) (simp_all add: fixtures denied_fixture)

text \<open>
  Claim C5 as amended. For every valid request whose "message_sent" event the server has
  inserted and which the entitlement check then denies (the check returns false), exactly
  one activity event is recorded, and it is the "message_sent" event, inserted before the
  entitlement row is looked up; no denied-access event and no "message_received" event is
  recorded.
\<close>

theorem denied_request_is_logged_as_sent:
  assumes "valid req" and "log_result req w = Inr ()" and "check_result req w = Inr False"
  shows "map action (new_activity req w) = [''message_sent''] \<and>
         events_of req w =
           conn_events w @
           [Execute Insert_activity_logs, Release,
            Acquire, Execute Select_user_agent_access, Release,
            Send_text (Error_frame ''Access denied to this agent. Payment required.'')]"
  using assms by (simp add: denied_effects)

text \<open>
  C5, witness: the amended statement at the request of a registered user to
  \<open>data-scientist\<close>.
\<close>

theorem denied_request_is_logged_as_sent_witness:
  "valid req_paid \<and> log_result req_paid world0 = Inr () \<and>
   check_result req_paid world0 = Inr False \<and>
   map action (new_activity req_paid world0) = [''message_sent''] \<and>
   events_of req_paid world0 =
     [Create_pool, Acquire, Execute Insert_activity_logs, Release,
      Acquire, Execute Select_user_agent_access, Release,
      Send_text (Error_frame ''Access denied to this agent. Payment required.'')]"
proof -
  have p: "conn_events world0 = [Create_pool, Acquire]"
    by (simp add: conn_events_def world0_def)
  show ?thesis
    using denied_request_is_logged_as_sent [OF fixtures(2) denied_fixture]
    by (simp add: p fixtures denied_fixture)
qed

subsection \<open>C6: a paid agent without entitlement\<close>

lemma unentitled_check: "\<not> entitled req w \<Longrightarrow> check_result req w \<noteq> Inr True"
  by (auto simp add: check_result_def check_agent_access_fst entitled_def has_row_logged
        split: if_splits option.splits)

lemma send_text_tables:
  "conversations (send_text f w) = conversations w" "messages (send_text f w) = messages w"
  "activity_logs (send_text f w) = activity_logs w"
  by (simp_all add: send_text_def emit_def)

text \<open>
  Claim C6. For every request to an agent outside the fixed free-agent set from a user with
  no row for that agent in the entitlement store, the client receives a single record, which
  is an error record, and the tables of conversations and of messages are what they were: no
  conversation is created and no message is persisted. This holds in every state and
  whatever statements the server refuses: the request may be invalid, the database
  unconfigured, the insertion of the activity event or the lookup of the entitlement row
  refused, or the access denied, and the text of the error record differs accordingly.
\<close>

theorem unentitled_paid_request_leaves_store_untouched:
  assumes "req_user_id req = Some uid" and "req_agent_id req = Some aid"
    and "aid \<notin> set free_agents" and "\<not> has_row uid aid w"
  shows "(\<exists>e. sent req w = [Error_frame e]) \<and>
         conversations (after req w) = conversations w \<and>
         messages (after req w) = messages w"
proof -
  have e: "\<not> entitled req w"
    using assms by (simp add: entitled_def)
  note k = unentitled_check [OF e]
  show ?thesis
  proof (cases "progress_of req w")
    case Rejected
    then show ?thesis
      by (simp add: sent_progress after_progress send_text_tables)
  next
    case (Log_failed x)
    then show ?thesis
      by (simp add: sent_progress after_progress send_text_tables connection_error_def
            stage_tables)
  next
    case (Check_failed x)
    then show ?thesis
      by (simp add: sent_progress after_progress send_text_tables connection_error_def
            stage_tables)
  next
    case Denied
    then show ?thesis
      by (simp add: sent_progress after_progress send_text_tables stage_tables)
  next
    case (Create_failed x)
    then show ?thesis using k progress_cases(5) by blast
  next
    case (User_save_failed x)
    then show ?thesis using k progress_cases(6) by blast
  next
    case (Answer_save_failed x)
    then show ?thesis using k progress_cases(7) by blast
  next
    case (Receipt_failed x)
    then show ?thesis using k progress_cases(8) by blast
  next
    case Completed
    then show ?thesis using k progress_cases(9) by blast
  qed
qed

text \<open>The request of Scenario B in a state whose server refuses the lookup.\<close>

lemma select_refused_fields:
  "configured select_refused"
  "outcomes select_refused = [None, Some ''canceling statement due to statement timeout'']"
  "\<not> has_row alice ''data-scientist'' select_refused"
  "conversations select_refused = []" "messages select_refused = []"
  by (simp_all add: select_refused_def world0_def configured_def has_row_def)

lemma select_refused_progress:
  "progress_of req_paid select_refused =
     Check_failed (PostgresError ''canceling statement due to statement timeout'')"
  by (simp add: progress_of_def fixtures result_defs log_activity_fst check_agent_access_fst
        stage_static select_refused_fields refusal_def outcomes_stage fixture_fields
        free_agents_def)

text \<open>
  C6, witness (Scenario B of the specification): \<open>data-scientist\<close>, no entitlement, once
  on a server that carries out every statement and once on one that refuses the lookup of
  the entitlement row.
\<close>

theorem unentitled_paid_request_leaves_store_untouched_witness:
  "''data-scientist'' \<notin> set free_agents \<and> \<not> has_row alice ''data-scientist'' world0 \<and>
   \<not> has_row alice ''data-scientist'' select_refused \<and>
   sent req_paid world0 = [Error_frame ''Access denied to this agent. Payment required.''] \<and>
   conversations (after req_paid world0) = [] \<and> messages (after req_paid world0) = [] \<and>
   sent req_paid select_refused =
     [Error_frame ''Connection error: canceling statement due to statement timeout''] \<and>
   conversations (after req_paid select_refused) = [] \<and>
   messages (after req_paid select_refused) = []"
proof -
  have a: "req_user_id req_paid = Some alice" "req_agent_id req_paid = Some ''data-scientist''"
    by (simp_all add: req_paid_def)
  have f: "''data-scientist'' \<notin> set free_agents"
    by (simp add: free_agents_def)
  have h: "\<not> has_row alice ''data-scientist'' world0"
    by (simp add: has_row_def world0_def)
  have t: "conversations world0 = []" "messages world0 = []"
    by (simp_all add: world0_def)
  have p: "progress_of req_paid world0 = Denied"
    by (rule denied_progress) (simp_all add: fixtures denied_fixture)
  have s: "sent req_paid world0 =
             [Error_frame ''Access denied to this agent. Payment required.'']"
    by (simp add: sent_progress p)
  have s': "sent req_paid select_refused =
             [Error_frame ''Connection error: canceling statement due to statement timeout'']"
    by (simp add: sent_progress select_refused_progress connection_error_def)
  show ?thesis
    using f h unentitled_paid_request_leaves_store_untouched [OF a f h]
      unentitled_paid_request_leaves_store_untouched [OF a f select_refused_fields(3)]
    by (simp add: s s' t select_refused_fields)
qed

subsection \<open>C7: a request with a missing field\<close>

text \<open>
  Claim C7. If any of \<open>user_id\<close>, \<open>agent_id\<close> and \<open>message\<close> is missing or empty, the
  session sends one error record and changes nothing but the channel: the state after the
  request is the state before it with that one record sent, so no statement is executed, no
  conversation is created, no message is persisted and no activity event is recorded.
\<close>

theorem missing_field_touches_no_storage:
  assumes "\<not> valid req"
  shows "sent req w = [Error_frame ''Missing required fields: user_id, agent_id, message''] \<and>
         after req w =
           w\<lparr>trace := trace w @
              [Send_text (Error_frame ''Missing required fields: user_id, agent_id, message'')]\<rparr> \<and>
         conversations (after req w) = conversations w \<and>
         messages (after req w) = messages w \<and>
         activity_logs (after req w) = activity_logs w"
proof -
  have p: "progress_of req w = Rejected"
    using assms by (simp add: progress_of_def)
  show ?thesis
    by (simp add: sent_progress after_progress p send_text_def emit_def)
qed

text \<open>
  C7, witness: a request without \<open>message\<close>.
\<close>

theorem missing_field_touches_no_storage_witness:
  "\<not> valid req_no_message \<and>
   sent req_no_message world0 =
     [Error_frame ''Missing required fields: user_id, agent_id, message''] \<and>
   conversations (after req_no_message world0) = [] \<and>
   messages (after req_no_message world0) = [] \<and>
   activity_logs (after req_no_message world0) = []"
  using missing_field_touches_no_storage [OF fixtures(3), of world0]
  by (simp add: fixtures world0_def)

subsection \<open>C8: the user message comes first\<close>

text \<open>
  No event before the insertion of the user message is an event of the generation, and a
  request that does not insert the user message generates nothing.
\<close>

lemma quiet_all: "filter g xs = [] \<Longrightarrow> filter g (takeWhile p xs) = []"
  by (induction xs) (auto split: if_splits)

lemma quiet_prefix:
  "filter g xs = [] \<Longrightarrow> \<not> p s \<Longrightarrow> filter g (takeWhile p (xs @ s # ys)) = []"
  by (induction xs) (auto split: if_splits)

lemma quiet_events:
  "filter generation_event (conn_events w) = []"
  "filter generation_event (log_events w) = []"
  "filter generation_event (check_events aid w) = []"
  "filter generation_event (conversation_events w) = []"
  "filter generation_event (save_events ''user'' w) = []"
  "\<not> generation_event (Send_text (connection_error e))"
  by (simp_all add: conn_events_def log_events_def check_events_def conversation_events_def
        save_events_def connection_error_def)

lemma quiet_setup: "filter generation_event (setup_events req w) = []"
  by (simp add: setup_events_def quiet_events)

lemma user_insert_split:
  assumes "user_save_result req w = Inr x"
  shows "\<exists>zs. save_events ''user'' (resolved req w) =
               conn_events (resolved req w) @ Execute (Insert_messages ''user'') # zs"
  using result_facts(2) [OF assms] by (simp add: save_events_def stage_static)

lemma quiet_answer:
  assumes "user_save_result req w = Inr x"
  shows "filter generation_event
           (takeWhile (\<lambda>e. e \<noteq> Execute (Insert_messages ''user''))
              (answer_events req w @ rest)) = []"
proof -
  obtain zs where z: "save_events ''user'' (resolved req w) =
      conn_events (resolved req w) @ Execute (Insert_messages ''user'') # zs"
    using user_insert_split [OF assms] by blast
  have q: "filter generation_event (setup_events req w @ conn_events (resolved req w)) = []"
    by (simp add: quiet_setup quiet_events)
  have "answer_events req w @ rest =
          (setup_events req w @ conn_events (resolved req w)) @
          Execute (Insert_messages ''user'') #
          (zs @ backend_events (get_agent (the (req_agent_id req)) w) w @ chunk_events req w @
           save_events ''assistant'' (relayed req w) @ rest)"
    by (simp add: answer_events_def z)
  then show ?thesis
    using quiet_prefix [OF q, of "\<lambda>e. e \<noteq> Execute (Insert_messages ''user'')"
        "Execute (Insert_messages ''user'')"]
    by simp
qed

lemma no_generation_before_user_insert:
  "filter generation_event
     (takeWhile (\<lambda>e. e \<noteq> Execute (Insert_messages ''user'')) (events_of req w)) = []"
proof (cases "progress_of req w")
  case Rejected
  then show ?thesis by (simp add: events_progress)
next
  case (Log_failed e)
  then show ?thesis by (simp add: events_progress quiet_all quiet_events)
next
  case (Check_failed e)
  then show ?thesis by (simp add: events_progress quiet_all quiet_events)
next
  case Denied
  then show ?thesis by (simp add: events_progress quiet_all quiet_events)
next
  case (Create_failed e)
  then show ?thesis by (simp add: events_progress quiet_all quiet_events quiet_setup)
next
  case (User_save_failed e)
  then show ?thesis by (simp add: events_progress quiet_all quiet_events quiet_setup)
next
  case (Answer_save_failed e)
  then have "user_save_result req w = Inr ()" by (simp add: progress_cases)
  then show ?thesis using Answer_save_failed by (simp add: events_progress quiet_answer)
next
  case (Receipt_failed e)
  then have "user_save_result req w = Inr ()" by (simp add: progress_cases)
  then show ?thesis using Receipt_failed by (simp add: events_progress quiet_answer)
next
  case Completed
  then have "user_save_result req w = Inr ()" by (simp add: progress_cases)
  then show ?thesis using Completed by (simp add: events_progress quiet_answer)
qed

text \<open>
  The rows a request adds to the table of messages: the assistant row is added only after
  the user row, and its timestamp is not earlier.
\<close>

lemma saved_rows_cases:
  "saved_rows cid r txt w = [] \<or>
   saved_rows cid r txt w =
     [\<lparr>msg_id = fresh_uuid w, msg_conversation_id = cid, role = r, content = txt,
       msg_created_at = clock (tick w)\<rparr>]"
  by (simp add: saved_rows_def)

lemma user_row_only:
  "map role (saved_rows cid ''user'' txt w) = [] \<or>
   map role (saved_rows cid ''user'' txt w) = [''user'']"
  "sorted (map msg_created_at (saved_rows cid r txt w))"
  by (simp_all add: saved_rows_def)

lemma user_row_then_answer:
  assumes "user_save_result req w = Inr x"
  shows "map role
           (saved_rows (conversation_of req w) ''user'' (the (req_message req)) (resolved req w) @
            saved_rows (conversation_of req w) ''assistant'' (answer req w) (relayed req w)) =
           [''user''] \<or>
         map role
           (saved_rows (conversation_of req w) ''user'' (the (req_message req)) (resolved req w) @
            saved_rows (conversation_of req w) ''assistant'' (answer req w) (relayed req w)) =
           [''user'', ''assistant'']"
    "sorted (map msg_created_at
           (saved_rows (conversation_of req w) ''user'' (the (req_message req)) (resolved req w) @
            saved_rows (conversation_of req w) ''assistant'' (answer req w) (relayed req w)))"
proof -
  note f = result_facts(2) [OF assms]
  have t: "clock (tick (resolved req w)) \<le> clock (tick (relayed req w))"
    using f by (simp add: timestamps_in_order)
  note u = rows_carried(1) [OF assms]
  show "map role
           (saved_rows (conversation_of req w) ''user'' (the (req_message req)) (resolved req w) @
            saved_rows (conversation_of req w) ''assistant'' (answer req w) (relayed req w)) =
           [''user''] \<or>
         map role
           (saved_rows (conversation_of req w) ''user'' (the (req_message req)) (resolved req w) @
            saved_rows (conversation_of req w) ''assistant'' (answer req w) (relayed req w)) =
           [''user'', ''assistant'']"
    using saved_rows_cases [of "conversation_of req w" "''assistant''" "answer req w"
        "relayed req w"]
    by (auto simp add: u)
  show "sorted (map msg_created_at
           (saved_rows (conversation_of req w) ''user'' (the (req_message req)) (resolved req w) @
            saved_rows (conversation_of req w) ''assistant'' (answer req w) (relayed req w)))"
    using saved_rows_cases [of "conversation_of req w" "''assistant''" "answer req w"
        "relayed req w"] t
    by (auto simp add: u)
qed

lemma roles_and_timestamps:
  "(map role (new_messages req w) = [] \<or> map role (new_messages req w) = [''user''] \<or>
    map role (new_messages req w) = [''user'', ''assistant'']) \<and>
   sorted (map msg_created_at (new_messages req w))"
proof (cases "progress_of req w")
  case (User_save_failed e)
  then show ?thesis
    using user_row_only(1) [of "conversation_of req w" "the (req_message req)" "resolved req w"]
    by (auto simp add: new_messages_progress user_row_only(2))
next
  case (Answer_save_failed e)
  then have "user_save_result req w = Inr ()" by (simp add: progress_cases)
  from user_row_then_answer [OF this] Answer_save_failed show ?thesis
    by (auto simp add: new_messages_progress)
next
  case (Receipt_failed e)
  then have "user_save_result req w = Inr ()" by (simp add: progress_cases)
  from user_row_then_answer [OF this] Receipt_failed show ?thesis
    by (auto simp add: new_messages_progress)
next
  case Completed
  then have "user_save_result req w = Inr ()" by (simp add: progress_cases)
  from user_row_then_answer [OF this] Completed show ?thesis
    by (auto simp add: new_messages_progress)
qed (simp_all add: new_messages_progress)

text \<open>
  Claim C8. Among the events of a request, none of the generation (the call of the backend,
  the sending of a chunk, the insertion of an assistant message) happens before the
  insertion of the user message. The messages the request persists are none, or the user
  message alone, or the user message followed by the assistant message, and their creation
  timestamps are in ascending order: the timestamp of the user message is at most that of
  the assistant message. The user message stays alone when the server refuses a statement
  between its insertion and that of the assistant message.
\<close>

theorem user_message_is_saved_first:
  "filter generation_event
     (takeWhile (\<lambda>e. e \<noteq> Execute (Insert_messages ''user'')) (events_of req w)) = [] \<and>
   (map role (new_messages req w) = [] \<or>
    map role (new_messages req w) = [''user''] \<or>
    map role (new_messages req w) = [''user'', ''assistant'']) \<and>
   sorted (map msg_created_at (new_messages req w))"
  using roles_and_timestamps [of req w] by (simp add: no_generation_before_user_insert)

lemma ticking_fields:
  "configured ticking" "no_refusal ticking"
  by (simp_all add: ticking_def scripted_def world0_def configured_def no_refusal_def)

text \<open>
  C8, witness: a successful request, with a clock that advances by 5, 2 and 7, and a request
  whose assistant message the server refuses.
\<close>

theorem user_message_is_saved_first_witness:
  "map role (new_messages req_hi ticking) = [''user'', ''assistant''] \<and>
   map role (new_messages req_hi refusing) = [''user''] \<and>
   filter generation_event
     (takeWhile (\<lambda>e. e \<noteq> Execute (Insert_messages ''user'')) (events_of req_hi ticking)) = [] \<and>
   sorted (map msg_created_at (new_messages req_hi ticking)) \<and>
   filter generation_event
     (takeWhile (\<lambda>e. e \<noteq> Execute (Insert_messages ''user'')) (events_of req_hi refusing)) = [] \<and>
   sorted (map msg_created_at (new_messages req_hi refusing))"
proof -
  have p: "progress_of req_hi ticking = Completed"
    by (rule completed) (simp_all add: fixtures ticking_fields)
  have r: "map role (new_messages req_hi ticking) = [''user'', ''assistant'']"
    by (rule messages_completed(1) [OF p])
  have u: "user_save_result req_hi refusing = Inr ()"
    using refusing_progress by (simp add: progress_cases)
  have r': "map role (new_messages req_hi refusing) = [''user'']"
    by (simp add: new_messages_progress refusing_progress rows_carried(1) [OF u]
          saved_rows_def refusing_stages stage_static refusing_fields)
  show ?thesis
    using user_message_is_saved_first [of req_hi ticking]
      user_message_is_saved_first [of req_hi refusing]
    by (simp add: r r')
qed

subsection \<open>C9: the entitlement check for a free agent\<close>

text \<open>
  Claim C9 says that the entitlement check returns true for every user and every agent of the
  fixed free-agent set.

  Counterexample to C9. On an unconfigured database the check of the free agent
  \<open>creative-writer\<close> raises: \<open>check_agent_access\<close> takes its connection before it looks at
  the agent.
\<close>

theorem free_agent_unconfigured_counterexample:
  "''creative-writer'' \<in> set free_agents \<and>
   fst (check_agent_access alice ''creative-writer'' (world0\<lparr>database_url := None\<rparr>)) =
     Inl (ValueError ''Database not configured'')"
  by (simp add: free_agents_def check_agent_access_def get_connection_def world0_def)

text \<open>
  Claim C9 as amended. Whenever the database is configured, for every user and every agent of
  the fixed free-agent set the entitlement check returns true whatever rows the entitlement
  store holds, and it reads no row: between acquiring and releasing its connection it
  executes no statement.
\<close>

theorem free_agent_needs_no_row:
  assumes "configured w" and "aid \<in> set free_agents"
  shows "fst (check_agent_access uid aid (w\<lparr>user_agent_access := rows\<rparr>)) = Inr True \<and>
         trace (snd (check_agent_access uid aid (w\<lparr>user_agent_access := rows\<rparr>))) =
           trace w @ conn_events w @ [Release]"
  using assms
  by (simp add: check_agent_access_def get_connection_def release_connection_def emit_def
        configured_def conn_events_def)

text \<open>
  C9, witness: \<open>code-helper\<close> on an empty entitlement store.
\<close>

theorem free_agent_needs_no_row_witness:
  "configured world0 \<and> ''code-helper'' \<in> set free_agents \<and>
   fst (check_agent_access alice ''code-helper'' (world0\<lparr>user_agent_access := []\<rparr>)) = Inr True \<and>
   trace (snd (check_agent_access alice ''code-helper'' (world0\<lparr>user_agent_access := []\<rparr>))) =
     [Create_pool, Acquire, Release]"
proof -
  have f: "''code-helper'' \<in> set free_agents"
    by (simp add: free_agents_def)
  have p: "trace world0 @ conn_events world0 = [Create_pool, Acquire]"
    by (simp add: conn_events_def world0_def)
  show ?thesis
    using f fixtures(4) free_agent_needs_no_row [OF fixtures(4) f, of "alice" "[]"]
    by (simp add: p)
qed

subsection \<open>C10: the entitlement check on an unconfigured database\<close>

text \<open>
  Claim C10. \<open>check_agent_access\<close> takes a connection before it applies the free-agent
  shortcut, so on an unconfigured database (\<open>DATABASE_URL\<close> unset or empty) it raises
  \<open>ValueError("Database not configured")\<close> for every agent, the free ones included, and
  leaves the state as it was.
\<close>

theorem check_agent_access_raises_unconfigured:
  assumes "\<not> configured w"
  shows "check_agent_access uid aid w = (Inl (ValueError ''Database not configured''), w)"
  using assms by (simp add: check_agent_access_def get_connection_def configured_def)

text \<open>
  C10, witness: the free agent \<open>research-assistant\<close> with an empty \<open>DATABASE_URL\<close>.
\<close>

theorem check_agent_access_raises_unconfigured_witness:
  "\<not> configured (world0\<lparr>database_url := Some []\<rparr>) \<and>
   ''research-assistant'' \<in> set free_agents \<and>
   check_agent_access alice ''research-assistant'' (world0\<lparr>database_url := Some []\<rparr>) =
     (Inl (ValueError ''Database not configured''), world0\<lparr>database_url := Some []\<rparr>)"
proof -
  have n: "\<not> configured (world0\<lparr>database_url := Some []\<rparr>)"
    by (simp add: configured_def)
  show ?thesis
    using n check_agent_access_raises_unconfigured [OF n, of "alice" "''research-assistant''"]
    by (simp add: free_agents_def)
qed

end
